theory Spec2Isabelle
  imports Main
begin

section \<open>JavaScript values and objects\<close>

text \<open>
  The hooks of the dashboard read plain JavaScript objects. An object is modelled as an
  association list from property names to values, in insertion order (the order
  \<^verbatim>\<open>Object.keys\<close> and \<^verbatim>\<open>Object.entries\<close> report for string keys). \<open>getProp\<close> reads an
  own property; \<open>None\<close> stands for \<^verbatim>\<open>undefined\<close>. It models the reads whose key is a fixed
  name, a registry key followed by \<^verbatim>\<open>Data\<close>, or a chart id, none of which names a member of
  \<^verbatim>\<open>Object.prototype\<close>. A read \<^verbatim>\<open>obj[key]\<close> with a key that the caller chooses is
  \<open>getMember\<close> below.

  A property of a patient data object is \<^verbatim>\<open>null\<close>, an array of records, or some other
  object without a \<^verbatim>\<open>length\<close> property (such as \<^verbatim>\<open>patientInfo\<close>). The type of the records
  is left open.
\<close>

datatype 'r jsval = JNull | JArray "'r list" | JObject

type_synonym 'v js_object = "(string \<times> 'v) list"

definition getProp :: "'v js_object \<Rightarrow> string \<Rightarrow> 'v option" where
  "getProp obj key = map_of obj key"

text \<open>
  \<^verbatim>\<open>obj[key]\<close> on an object literal, for any key: the object's own property when it has
  one, and otherwise the member that it inherits from \<^verbatim>\<open>Object.prototype\<close> under that
  name (a function, or for \<^verbatim>\<open>__proto__\<close> the prototype object itself; all of them are
  truthy and none has a \<^verbatim>\<open>component\<close> property), and \<^verbatim>\<open>undefined\<close> when there is none.
\<close>

datatype 'v member = Own 'v | Inherited | Missing

definition objectPrototypeKeys :: "string list" where
  "objectPrototypeKeys =
     [''constructor'', ''hasOwnProperty'', ''isPrototypeOf'', ''propertyIsEnumerable'',
      ''toLocaleString'', ''toString'', ''valueOf'', ''__proto__'',
      ''__defineGetter__'', ''__defineSetter__'', ''__lookupGetter__'', ''__lookupSetter__'']"

definition getMember :: "'v js_object \<Rightarrow> string \<Rightarrow> 'v member" where
  "getMember obj key =
     (case map_of obj key of
        Some v \<Rightarrow> Own v
      | None \<Rightarrow> if key \<in> set objectPrototypeKeys then Inherited else Missing)"

text \<open>\<^verbatim>\<open>obj[key] = v\<close>: an existing property keeps its place, a new one is added last.\<close>

fun setProp :: "'v js_object \<Rightarrow> string \<Rightarrow> 'v \<Rightarrow> 'v js_object" where
  "setProp [] key v = [(key, v)]"
| "setProp ((k, w) # rest) key v =
     (if k = key then (k, v) # rest else (k, w) # setProp rest key v)"

definition objectKeys :: "'v js_object \<Rightarrow> string list" where
  "objectKeys obj = map fst obj"

text \<open>Truthiness of a property value: \<^verbatim>\<open>undefined\<close> and \<^verbatim>\<open>null\<close> are falsy, every array
  (also the empty one) and every object is truthy.\<close>

fun truthy :: "'r jsval option \<Rightarrow> bool" where
  "truthy None = False"
| "truthy (Some JNull) = False"
| "truthy (Some (JArray xs)) = True"
| "truthy (Some JObject) = True"

text \<open>\<^verbatim>\<open>v.length > 0\<close> for a truthy \<open>v\<close>: an object without a \<^verbatim>\<open>length\<close> gives
  \<^verbatim>\<open>undefined > 0\<close>, which is false.\<close>

fun lengthPositive :: "'r jsval option \<Rightarrow> bool" where
  "lengthPositive (Some (JArray xs)) = (0 < length xs)"
| "lengthPositive _ = False"

text \<open>The property holds a non-empty array.\<close>

definition nonEmptyArray :: "'r jsval option \<Rightarrow> bool" where
  "nonEmptyArray v = (\<exists>xs. v = Some (JArray xs) \<and> xs \<noteq> [])"

text \<open>A patient id as the hooks receive it: \<^verbatim>\<open>undefined\<close>, \<^verbatim>\<open>null\<close>, a string, or a value
  of another type, of which only its truthiness matters.\<close>

datatype js_id = IdUndefined | IdNull | IdString string | IdOther bool

fun truthyId :: "js_id \<Rightarrow> bool" where
  "truthyId IdUndefined = False"
| "truthyId IdNull = False"
| "truthyId (IdString s) = (s \<noteq> [])"
| "truthyId (IdOther b) = b"

text \<open>\<^verbatim>\<open>typeof id === 'string'\<close>\<close>

fun isString :: "js_id \<Rightarrow> bool" where
  "isString (IdString s) = True"
| "isString _ = False"

fun stringOf :: "js_id \<Rightarrow> string" where
  "stringOf (IdString s) = s"
| "stringOf _ = []"


section \<open>The visualization registry (hooks/useVisualizations.js)\<close>

datatype chart_component =
  PainChart | BloodPressureChart | GlucoseChart | ExerciseChart
  | MealContentsChart | MoodCalendar | SleepChart

text \<open>An entry of the registry: the spread configuration and the chart component.\<close>

record 'c visualization =
  config :: 'c
  component :: chart_component

text \<open>
  \<^verbatim>\<open>allVisualizations\<close>, in the order the object literal lists its keys. The table
  \<^verbatim>\<open>VISUALIZATION_CONFIG\<close> comes from the constants module and is a parameter here.
\<close>

definition allVisualizations :: "(string \<Rightarrow> 'c) \<Rightarrow> 'c visualization js_object" where
  "allVisualizations VISUALIZATION_CONFIG =
     [(''pain'', \<lparr>config = VISUALIZATION_CONFIG ''pain'', component = PainChart\<rparr>),
      (''bloodPressure'',
         \<lparr>config = VISUALIZATION_CONFIG ''bloodPressure'', component = BloodPressureChart\<rparr>),
      (''glucose'', \<lparr>config = VISUALIZATION_CONFIG ''glucose'', component = GlucoseChart\<rparr>),
      (''exercise'', \<lparr>config = VISUALIZATION_CONFIG ''exercise'', component = ExerciseChart\<rparr>),
      (''mealContents'',
         \<lparr>config = VISUALIZATION_CONFIG ''mealContents'', component = MealContentsChart\<rparr>),
      (''mood'', \<lparr>config = VISUALIZATION_CONFIG ''mood'', component = MoodCalendar\<rparr>),
      (''sleep'', \<lparr>config = VISUALIZATION_CONFIG ''sleep'', component = SleepChart\<rparr>)]"

text \<open>
  The body of the \<^verbatim>\<open>reduce\<close> callback of \<^verbatim>\<open>availableVisualizations\<close>:
  \<^verbatim>\<open>
  const dataKey = `${key}Data`;
  if (key === 'mealContents' && data['mealData'] && data['mealData'].length > 0) {
    acc[key] = viz;
  } else if (data[dataKey] && data[dataKey].length > 0) {
    acc[key] = viz;
  }
  return acc;
  \<close>
\<close>

definition availableStep ::
  "'r jsval js_object \<Rightarrow> 'v js_object \<Rightarrow> string \<times> 'v \<Rightarrow> 'v js_object" where
  "availableStep data acc entry =
     (let key = fst entry; viz = snd entry; dataKey = key @ ''Data'' in
      if key = ''mealContents'' \<and> truthy (getProp data ''mealData'')
           \<and> lengthPositive (getProp data ''mealData'')
      then setProp acc key viz
      else if truthy (getProp data dataKey) \<and> lengthPositive (getProp data dataKey)
      then setProp acc key viz
      else acc)"

text \<open>\<^verbatim>\<open>if (!data) return {}\<close>, then the \<^verbatim>\<open>reduce\<close> over the registry's entries. The data
  object is \<open>None\<close> when it is \<^verbatim>\<open>null\<close>.\<close>

definition availableVisualizations ::
  "'v js_object \<Rightarrow> 'r jsval js_object option \<Rightarrow> 'v js_object" where
  "availableVisualizations allVis data =
     (case data of
        None \<Rightarrow> []
      | Some d \<Rightarrow> foldl (availableStep d) [] allVis)"

text \<open>The condition under which the callback adds a key, written on the data object.\<close>

definition keyHasData :: "'r jsval js_object \<Rightarrow> string \<Rightarrow> bool" where
  "keyHasData d key =
    (if key = ''mealContents''
     then nonEmptyArray (getProp d ''mealData'') \<or> nonEmptyArray (getProp d ''mealContentsData'')
     else nonEmptyArray (getProp d (key @ ''Data'')))"

text \<open>A non-negative integer in a template literal: its decimal digits.\<close>

definition digitChar :: "nat \<Rightarrow> char" where
  "digitChar d = ''0123456789'' ! d"

fun numberToString :: "nat \<Rightarrow> string" where
  "numberToString n =
     (if n < 10 then [digitChar n] else numberToString (n div 10) @ [digitChar (n mod 10)])"

declare numberToString.simps [simp del]

text \<open>The value of a decimal digit and of a digit string, to read chart ids back.\<close>

definition digitValue :: "char \<Rightarrow> nat" where
  "digitValue c = of_char c - 48"

definition parseDigits :: "string \<Rightarrow> nat" where
  "parseDigits cs = foldl (\<lambda>a c. 10 * a + digitValue c) 0 cs"

text \<open>\<^verbatim>\<open>`${viewMode}-chart-${index}`\<close>\<close>

definition chartId :: "string \<Rightarrow> nat \<Rightarrow> string" where
  "chartId viewMode index = viewMode @ ''-chart-'' @ numberToString index"

text \<open>\<^verbatim>\<open>xs[i]\<close>: \<^verbatim>\<open>undefined\<close> out of range.\<close>

definition nthOpt :: "'a list \<Rightarrow> nat \<Rightarrow> 'a option" where
  "nthOpt xs i = (if i < length xs then Some (xs ! i) else None)"

text \<open>
  \<^verbatim>\<open>
  const availableKeys = Object.keys(availableVisualizations);
  const chartIds = availableKeys.map((_, index) => `${viewMode}-chart-${index}`);
  return chartIds.reduce((acc, chartId, index) => {
    acc[chartId] = availableKeys[index];
    return acc;
  }, {});
  \<close>
\<close>

definition selectedVisualizations :: "string \<Rightarrow> 'v js_object \<Rightarrow> string option js_object" where
  "selectedVisualizations viewMode available =
     (let availableKeys = objectKeys available;
          chartIds = map (\<lambda>index. chartId viewMode index) [0..<length availableKeys]
      in foldl (\<lambda>acc (cid, index). setProp acc cid (nthOpt availableKeys index))
           [] (zip chartIds [0..<length chartIds]))"


section \<open>Expand state and rendering (hooks/useVisualizationHelpers.js, PhysicianDashboard.js)\<close>

text \<open>
  The hook keeps one piece of state, \<^verbatim>\<open>expandedItem\<close>: \<^verbatim>\<open>null\<close> (here \<open>None\<close>) or the id
  of the expanded chart. \<^verbatim>\<open>handleExpand\<close> is the state updater
  \<^verbatim>\<open>setExpandedItem(prev => (prev === itemId ? null : itemId))\<close>.
\<close>

type_synonym expanded_state = "string option"

definition initialExpandedItem :: expanded_state where
  "initialExpandedItem = None"

definition handleExpand :: "string \<Rightarrow> expanded_state \<Rightarrow> expanded_state" where
  "handleExpand itemId prev = (if prev = Some itemId then None else Some itemId)"

text \<open>\<^verbatim>\<open>isExpanded\<close> as the render functions compute it: \<^verbatim>\<open>expandedItem === itemId\<close>.\<close>

definition isExpanded :: "expanded_state \<Rightarrow> string \<Rightarrow> bool" where
  "isExpanded expandedItem itemId = (expandedItem = Some itemId)"

text \<open>
  The props handed to a chart component. \<open>onExpand_prop\<close> is the id that the callback
  \<^verbatim>\<open>() => handleExpand(itemId)\<close> passes on; \<open>navigation_prop\<close> is what
  \<^verbatim>\<open>chartNavigation[visualizationType]\<close> reads: the navigation object of a chart type
  (named by that chart type), an inherited member, or \<^verbatim>\<open>undefined\<close>, which it also is when
  the prop is not passed.
\<close>

record chart_props =
  patientId_prop :: js_id
  isExpanded_prop :: bool
  onExpand_prop :: string
  viewMode_prop :: string
  navigation_prop :: "string member"

text \<open>
  What a render function returns: \<^verbatim>\<open><Placeholder message=... type=... />\<close>, a chart, or
  \<^verbatim>\<open><Component ... />\<close> with \<^verbatim>\<open>Component\<close> \<^verbatim>\<open>undefined\<close>, an element without a type, which
  cannot be rendered.
\<close>

datatype element =
  Placeholder string string
  | ChartElement chart_component chart_props
  | UndefinedElement chart_props

fun isPlaceholder :: "element \<Rightarrow> bool" where
  "isPlaceholder (Placeholder message type) = True"
| "isPlaceholder (ChartElement c props) = False"
| "isPlaceholder (UndefinedElement props) = False"

text \<open>
  \<^verbatim>\<open>
  if (!patientId) return <Placeholder message="Please select a patient to view data." ... />;
  const viz = allVisualizations[visualizationType];
  if (!viz) return <Placeholder message="Invalid visualization" type="error" />;
  const Component = viz.component;
  const isExpanded = expandedItem === itemId;
  return <Component patientId={patientId} isExpanded={isExpanded}
                    onExpand={() => handleExpand(itemId)} viewMode="patient" />;
  \<close>
  An inherited member is truthy, so it passes the test \<^verbatim>\<open>!viz\<close>, and its \<^verbatim>\<open>component\<close>
  is \<^verbatim>\<open>undefined\<close>.
\<close>

definition renderVisualization ::
  "js_id \<Rightarrow> 'c visualization js_object \<Rightarrow> expanded_state \<Rightarrow> string \<Rightarrow> string \<Rightarrow> element" where
  "renderVisualization patientId allVis expandedItem visualizationType itemId =
     (if \<not> truthyId patientId
      then Placeholder ''Please select a patient to view data.'' ''select-patient''
      else case getMember allVis visualizationType of
        Missing \<Rightarrow> Placeholder ''Invalid visualization'' ''error''
      | Own viz \<Rightarrow>
          ChartElement (component viz)
            \<lparr>patientId_prop = patientId,
             isExpanded_prop = (expandedItem = Some itemId),
             onExpand_prop = itemId,
             viewMode_prop = ''patient'',
             navigation_prop = Missing\<rparr>
      | Inherited \<Rightarrow>
          UndefinedElement
            \<lparr>patientId_prop = patientId,
             isExpanded_prop = (expandedItem = Some itemId),
             onExpand_prop = itemId,
             viewMode_prop = ''patient'',
             navigation_prop = Missing\<rparr>)"

text \<open>\<^verbatim>\<open>chartNavigation\<close> of the physician dashboard: one navigation hook per chart type,
  each named here by the chart type it was created for.\<close>

definition chartNavigation :: "string js_object" where
  "chartNavigation =
     [(''glucose'', ''glucose''), (''bloodPressure'', ''bloodPressure''),
      (''exercise'', ''exercise''), (''sleep'', ''sleep''), (''pain'', ''pain''),
      (''mood'', ''mood''), (''mealContents'', ''mealContents'')]"

definition renderVisualizationWithMode ::
  "js_id \<Rightarrow> 'c visualization js_object \<Rightarrow> expanded_state \<Rightarrow> string \<Rightarrow> string \<Rightarrow> element" where
  "renderVisualizationWithMode selectedPatientId allVis expandedItem visualizationType windowId =
     (if \<not> truthyId selectedPatientId
      then Placeholder ''Please select a patient to view data.'' ''select-patient''
      else case getMember allVis visualizationType of
        Missing \<Rightarrow> Placeholder ''Invalid visualization'' ''error''
      | Own viz \<Rightarrow>
          ChartElement (component viz)
            \<lparr>patientId_prop = selectedPatientId,
             isExpanded_prop = (expandedItem = Some windowId),
             onExpand_prop = windowId,
             viewMode_prop = ''physician'',
             navigation_prop = getMember chartNavigation visualizationType\<rparr>
      | Inherited \<Rightarrow>
          UndefinedElement
            \<lparr>patientId_prop = selectedPatientId,
             isExpanded_prop = (expandedItem = Some windowId),
             onExpand_prop = windowId,
             viewMode_prop = ''physician'',
             navigation_prop = getMember chartNavigation visualizationType\<rparr>)"


section \<open>Patient data state (hooks/usePatientData.js)\<close>

text \<open>
  The four state variables of the hook. \<open>data\<close> is \<open>None\<close> for \<^verbatim>\<open>null\<close>; \<open>error\<close> is
  \<open>None\<close> for \<^verbatim>\<open>null\<close> or the message; \<open>lastFetchedId\<close> is \<open>None\<close> for \<^verbatim>\<open>null\<close> or the id
  string of the last successful load (it is only ever set to a string or to \<^verbatim>\<open>null\<close>).
\<close>

record 'r hook_state =
  data :: "'r jsval js_object option"
  loading :: bool
  error :: "string option"
  lastFetchedId :: "string option"

text \<open>\<^verbatim>\<open>useState(null), useState(true), useState(null), useState(null)\<close>\<close>

definition initialState :: "'r hook_state" where
  "initialState = \<lparr>data = None, loading = True, error = None, lastFetchedId = None\<rparr>"

text \<open>A call of one of the four state setters, and a sequence of them applied in order.\<close>

datatype 'r update =
  SetData "'r jsval js_object option"
  | SetLoading bool
  | SetError "string option"
  | SetLastFetchedId "string option"

fun applyUpdate :: "'r hook_state \<Rightarrow> 'r update \<Rightarrow> 'r hook_state" where
  "applyUpdate s (SetData v) = s\<lparr>data := v\<rparr>"
| "applyUpdate s (SetLoading b) = s\<lparr>loading := b\<rparr>"
| "applyUpdate s (SetError e) = s\<lparr>error := e\<rparr>"
| "applyUpdate s (SetLastFetchedId i) = s\<lparr>lastFetchedId := i\<rparr>"

definition applyUpdates :: "'r hook_state \<Rightarrow> 'r update list \<Rightarrow> 'r hook_state" where
  "applyUpdates s us = foldl applyUpdate s us"

text \<open>
  How \<^verbatim>\<open>await DataService.getPatientData(id)\<close> ends: the promise resolves to a value
  (\<^verbatim>\<open>null\<close>/\<^verbatim>\<open>undefined\<close>, here \<open>None\<close>, or an object), rejects with an \<^verbatim>\<open>Error\<close> carrying a
  message, or rejects with a value that is not an \<^verbatim>\<open>Error\<close>. The data service is not part
  of the hook; it is a parameter of the model, a function from the id to the outcome.
\<close>

datatype 'r fetch_result =
  Resolved "'r jsval js_object option"
  | RejectedError string
  | RejectedOther

text \<open>\<^verbatim>\<open>id === lastFetchedId\<close>\<close>

fun strictEqualsLast :: "js_id \<Rightarrow> string option \<Rightarrow> bool" where
  "strictEqualsLast IdNull None = True"
| "strictEqualsLast (IdString s) (Some t) = (s = t)"
| "strictEqualsLast _ _ = False"

text \<open>Truthiness of the error state: \<^verbatim>\<open>null\<close> and the empty message are falsy.\<close>

definition truthyError :: "string option \<Rightarrow> bool" where
  "truthyError e = (case e of None \<Rightarrow> False | Some m \<Rightarrow> m \<noteq> [])"

text \<open>\<^verbatim>\<open>id === lastFetchedId && data && !error\<close>: the load is skipped.\<close>

definition cacheHit :: "js_id \<Rightarrow> 'r hook_state \<Rightarrow> bool" where
  "cacheHit ident s =
     (strictEqualsLast ident (lastFetchedId s) \<and> data s \<noteq> None \<and> \<not> truthyError (error s))"

text \<open>
  The \<^verbatim>\<open>try\<close> block after the fetch, up to the \<^verbatim>\<open>catch\<close>: \<open>Inr\<close> the data that is stored,
  \<open>Inl\<close> the message that the \<^verbatim>\<open>catch\<close> clause computes
  (\<^verbatim>\<open>err instanceof Error ? err.message : 'Unknown error occurred'\<close>).
\<close>

fun tryBlock :: "'r fetch_result \<Rightarrow> string + 'r jsval js_object" where
  "tryBlock (Resolved None) = Inl ''Invalid data structure received''"
| "tryBlock (Resolved (Some patientData)) =
     (if truthy (getProp patientData ''patientInfo'') then Inr patientData
      else Inl ''Invalid data structure received'')"
| "tryBlock (RejectedError message) = Inl message"
| "tryBlock RejectedOther = Inl ''Unknown error occurred''"

text \<open>
  \<^verbatim>\<open>loadData(id)\<close>, as the list of setter calls it makes, in order. The state \<open>s\<close> is the
  one captured by the closure (\<^verbatim>\<open>lastFetchedId\<close>, \<^verbatim>\<open>data\<close>, \<^verbatim>\<open>error\<close>).
\<close>

definition loadData ::
  "(string \<Rightarrow> 'r fetch_result) \<Rightarrow> js_id \<Rightarrow> 'r hook_state \<Rightarrow> 'r update list" where
  "loadData getPatientData ident s =
     (if cacheHit ident s then []
      else if \<not> truthyId ident \<or> \<not> isString ident
      then [SetLoading False, SetData None, SetError None]
      else [SetLoading True, SetError None]
           @ (case tryBlock (getPatientData (stringOf ident)) of
                Inr patientData \<Rightarrow>
                  [SetData (Some patientData), SetLastFetchedId (Some (stringOf ident))]
              | Inl errorMessage \<Rightarrow> [SetError (Some errorMessage), SetData None])
           @ [SetLoading False])"

text \<open>The effect on \<^verbatim>\<open>[patientId, loadData]\<close>, run to completion.\<close>

definition patientIdEffect ::
  "(string \<Rightarrow> 'r fetch_result) \<Rightarrow> js_id \<Rightarrow> 'r hook_state \<Rightarrow> 'r hook_state" where
  "patientIdEffect getPatientData patientId s =
     (if truthyId patientId then applyUpdates s (loadData getPatientData patientId s)
      else applyUpdates s [SetData None, SetError None, SetLastFetchedId None, SetLoading False])"

text \<open>\<^verbatim>\<open>refetch\<close>: \<^verbatim>\<open>setLastFetchedId(null)\<close> is queued first, then \<^verbatim>\<open>loadData\<close> runs with the
  state its closure captured.\<close>

definition refetch ::
  "(string \<Rightarrow> 'r fetch_result) \<Rightarrow> js_id \<Rightarrow> 'r hook_state \<Rightarrow> 'r hook_state" where
  "refetch getPatientData patientId s =
     (if truthyId patientId
      then applyUpdates s (SetLastFetchedId None # loadData getPatientData patientId s)
      else s)"

definition clearData :: "'r hook_state \<Rightarrow> 'r hook_state" where
  "clearData s =
     applyUpdates s [SetData None, SetError None, SetLastFetchedId None, SetLoading False]"

text \<open>
  The states the hook can be in between events, when every event (an effect run for some
  patient id, a \<^verbatim>\<open>refetch\<close>, a \<^verbatim>\<open>clearData\<close>) runs to completion before the next one
  starts. Two loads in flight at the same time are outside this model. The data service
  may answer differently at every event.
\<close>

inductive reachable :: "'r hook_state \<Rightarrow> bool" where
  reach_init: "reachable initialState"
| reach_effect: "reachable s \<Longrightarrow> reachable (patientIdEffect getPatientData patientId s)"
| reach_refetch: "reachable s \<Longrightarrow> reachable (refetch getPatientData patientId s)"
| reach_clear: "reachable s \<Longrightarrow> reachable (clearData s)"

text \<open>\<^verbatim>\<open>data?.field\<close> and \<^verbatim>\<open>value || []\<close>\<close>

definition optionalField :: "'r jsval js_object option \<Rightarrow> string \<Rightarrow> 'r jsval option" where
  "optionalField obj key = (case obj of None \<Rightarrow> None | Some d \<Rightarrow> getProp d key)"

definition orEmptyArray :: "'r jsval option \<Rightarrow> 'r jsval option" where
  "orEmptyArray v = (if truthy v then v else Some (JArray []))"

text \<open>The per-metric accessors and flags of the returned object.\<close>

definition glucoseData :: "'r hook_state \<Rightarrow> 'r jsval option" where
  "glucoseData s = orEmptyArray (optionalField (data s) ''glucoseData'')"

definition bloodPressureData :: "'r hook_state \<Rightarrow> 'r jsval option" where
  "bloodPressureData s = orEmptyArray (optionalField (data s) ''bloodPressureData'')"

definition exerciseData :: "'r hook_state \<Rightarrow> 'r jsval option" where
  "exerciseData s = orEmptyArray (optionalField (data s) ''exerciseData'')"

definition moodData :: "'r hook_state \<Rightarrow> 'r jsval option" where
  "moodData s = orEmptyArray (optionalField (data s) ''moodData'')"

definition painData :: "'r hook_state \<Rightarrow> 'r jsval option" where
  "painData s = orEmptyArray (optionalField (data s) ''painData'')"

definition mealData :: "'r hook_state \<Rightarrow> 'r jsval option" where
  "mealData s = orEmptyArray (optionalField (data s) ''mealData'')"

definition sleepData :: "'r hook_state \<Rightarrow> 'r jsval option" where
  "sleepData s = orEmptyArray (optionalField (data s) ''sleepData'')"

definition hasData :: "'r hook_state \<Rightarrow> bool" where
  "hasData s = (data s \<noteq> None)"

definition hasGlucoseData :: "'r hook_state \<Rightarrow> bool" where
  "hasGlucoseData s = lengthPositive (orEmptyArray (optionalField (data s) ''glucoseData''))"

definition hasBloodPressureData :: "'r hook_state \<Rightarrow> bool" where
  "hasBloodPressureData s =
     lengthPositive (orEmptyArray (optionalField (data s) ''bloodPressureData''))"

definition hasExerciseData :: "'r hook_state \<Rightarrow> bool" where
  "hasExerciseData s = lengthPositive (orEmptyArray (optionalField (data s) ''exerciseData''))"

definition hasMoodData :: "'r hook_state \<Rightarrow> bool" where
  "hasMoodData s = lengthPositive (orEmptyArray (optionalField (data s) ''moodData''))"

definition hasPainData :: "'r hook_state \<Rightarrow> bool" where
  "hasPainData s = lengthPositive (orEmptyArray (optionalField (data s) ''painData''))"

definition hasSleepData :: "'r hook_state \<Rightarrow> bool" where
  "hasSleepData s = lengthPositive (orEmptyArray (optionalField (data s) ''sleepData''))"

definition hasMealData :: "'r hook_state \<Rightarrow> bool" where
  "hasMealData s = lengthPositive (orEmptyArray (optionalField (data s) ''mealData''))"


section \<open>Time values and dates (the ECMAScript \<^verbatim>\<open>Date\<close> operations the hooks call)\<close>

text \<open>
  \<^verbatim>\<open>useChartNavigation\<close> is written with the built-in \<^verbatim>\<open>Date\<close>. Its operations are
  modelled after the abstract operations of the ECMAScript specification (section
  "Date Objects"), on integers: a time value is a number of milliseconds, days are
  counted from 1 January 1970, months from 0 and days of the week from Sunday = 0.

  A \<^verbatim>\<open>Date\<close> holds a time value in UTC; its getters and setters work in local time and
  convert with \<open>LocalTime\<close> and \<open>UTC\<close>, which depend on the time zone of the system.
  The time zone is a parameter of the model, defined further below.
\<close>

definition msPerDay :: int where "msPerDay = 86400000"
definition msPerHour :: int where "msPerHour = 3600000"
definition msPerMinute :: int where "msPerMinute = 60000"
definition msPerSecond :: int where "msPerSecond = 1000"

definition Day :: "int \<Rightarrow> int" where
  "Day t = t div msPerDay"

definition TimeWithinDay :: "int \<Rightarrow> int" where
  "TimeWithinDay t = t mod msPerDay"

definition DaysInYear :: "int \<Rightarrow> int" where
  "DaysInYear y =
     (if y mod 4 \<noteq> 0 then 365
      else if y mod 100 \<noteq> 0 then 366
      else if y mod 400 \<noteq> 0 then 365
      else 366)"

definition DayFromYear :: "int \<Rightarrow> int" where
  "DayFromYear y =
     365 * (y - 1970) + (y - 1969) div 4 - (y - 1901) div 100 + (y - 1601) div 400"

text \<open>
  The specification defines \<open>YearFromTime t\<close> as the largest year \<open>y\<close> with
  \<open>TimeFromYear y \<le> t\<close>. This definition computes it: the estimate \<open>y0\<close> from the mean
  length of a year is off by at most one, and the two comparisons correct it. Lemma
  \<open>YearFromTime_spec\<close> below shows that the result is the year the specification
  describes, and \<open>YearFromTime_unique\<close> that no other year is.
\<close>

definition YearFromTime :: "int \<Rightarrow> int" where
  "YearFromTime t =
     (let d = Day t; y0 = 1970 + (400 * d) div 146097
      in if DayFromYear (y0 + 1) \<le> d then y0 + 1
         else if DayFromYear y0 \<le> d then y0
         else y0 - 1)"

definition InLeapYear :: "int \<Rightarrow> int" where
  "InLeapYear t = (if DaysInYear (YearFromTime t) = 366 then 1 else 0)"

definition DayWithinYear :: "int \<Rightarrow> int" where
  "DayWithinYear t = Day t - DayFromYear (YearFromTime t)"

definition MonthFromTime :: "int \<Rightarrow> int" where
  "MonthFromTime t =
     (let d = DayWithinYear t; leap = InLeapYear t
      in if d < 31 then 0
         else if d < 59 + leap then 1
         else if d < 90 + leap then 2
         else if d < 120 + leap then 3
         else if d < 151 + leap then 4
         else if d < 181 + leap then 5
         else if d < 212 + leap then 6
         else if d < 243 + leap then 7
         else if d < 273 + leap then 8
         else if d < 304 + leap then 9
         else if d < 334 + leap then 10
         else 11)"

definition DateFromTime :: "int \<Rightarrow> int" where
  "DateFromTime t =
     (let d = DayWithinYear t; leap = InLeapYear t; m = MonthFromTime t
      in if m = 0 then d + 1
         else if m = 1 then d - 30
         else if m = 2 then d - 58 - leap
         else if m = 3 then d - 89 - leap
         else if m = 4 then d - 119 - leap
         else if m = 5 then d - 150 - leap
         else if m = 6 then d - 180 - leap
         else if m = 7 then d - 211 - leap
         else if m = 8 then d - 242 - leap
         else if m = 9 then d - 272 - leap
         else if m = 10 then d - 303 - leap
         else d - 333 - leap)"

definition WeekDay :: "int \<Rightarrow> int" where
  "WeekDay t = (Day t + 4) mod 7"

definition MakeTime :: "int \<Rightarrow> int \<Rightarrow> int \<Rightarrow> int \<Rightarrow> int" where
  "MakeTime hour minute sec ms = hour * msPerHour + minute * msPerMinute + sec * msPerSecond + ms"

text \<open>The number of days of a year that lie before its month \<open>mn\<close> (0 to 11).\<close>

definition DayFromMonth :: "int \<Rightarrow> int \<Rightarrow> int" where
  "DayFromMonth mn leap =
     (if mn = 0 then 0
      else if mn = 1 then 31
      else if mn = 2 then 59 + leap
      else if mn = 3 then 90 + leap
      else if mn = 4 then 120 + leap
      else if mn = 5 then 151 + leap
      else if mn = 6 then 181 + leap
      else if mn = 7 then 212 + leap
      else if mn = 8 then 243 + leap
      else if mn = 9 then 273 + leap
      else if mn = 10 then 304 + leap
      else 334 + leap)"

text \<open>
  \<open>MakeDay\<close>: the month may lie outside 0 to 11 and is carried into the year; the day
  number of the first of that month, plus \<open>date - 1\<close>, so a date outside the month
  runs over into the neighbouring months.
\<close>

definition MakeDay :: "int \<Rightarrow> int \<Rightarrow> int \<Rightarrow> int" where
  "MakeDay year month date =
     (let ym = year + month div 12; mn = month mod 12
      in DayFromYear ym + DayFromMonth mn (if DaysInYear ym = 366 then 1 else 0) + date - 1)"

definition MakeDate :: "int \<Rightarrow> int \<Rightarrow> int" where
  "MakeDate day time = day * msPerDay + time"

definition maxTimeValue :: int where "maxTimeValue = 8640000000000000"

text \<open>\<open>TimeClip\<close>: a time value beyond 100 million days from the epoch is \<^verbatim>\<open>NaN\<close>.\<close>

definition TimeClip :: "int \<Rightarrow> int option" where
  "TimeClip t = (if \<bar>t\<bar> > maxTimeValue then None else Some t)"



text \<open>
  The time zone of the system. \<open>offsetAtUTC z t\<close> is the offset of local time from UTC,
  in milliseconds, at the instant \<open>t\<close> (the specification's \<^verbatim>\<open>LocalTZA(t, true)\<close>).
  \<open>offsetAtLocal z t\<close> is the offset that the specification's \<open>UTC\<close> uses for the local
  time \<open>t\<close> (\<^verbatim>\<open>LocalTZA(t, false)\<close>): the offset at the instant with that local time; at
  the earlier one when the local time occurs twice; and the offset in force before the
  transition when the local time is skipped, so that a skipped local time moves forward
  by the length of the gap.
\<close>

record time_zone =
  offsetAtUTC :: "int \<Rightarrow> int"
  offsetAtLocal :: "int \<Rightarrow> int"

definition LocalTime :: "time_zone \<Rightarrow> int \<Rightarrow> int" where
  "LocalTime z t = t + offsetAtUTC z t"

definition UTC :: "time_zone \<Rightarrow> int \<Rightarrow> int" where
  "UTC z t = t - offsetAtLocal z t"

text \<open>Time zones to evaluate in: UTC itself, and a zone that moves its clocks forward once,
  from the offset \<open>before\<close> to the offset \<open>after\<close> at the instant \<open>transition\<close>. The local
  times from \<open>transition + before\<close> up to \<open>transition + after\<close> are skipped.\<close>

definition utcZone :: time_zone where
  "utcZone = \<lparr>offsetAtUTC = (\<lambda>t. 0), offsetAtLocal = (\<lambda>t. 0)\<rparr>"




text \<open>
  The zone keeps the offset \<open>c\<close> within 32 days of the instant \<open>u\<close>: at every instant
  of that window, and for every local time of that window.
\<close>

definition steadyAround :: "time_zone \<Rightarrow> int \<Rightarrow> int \<Rightarrow> bool" where
  "steadyAround z c u =
     (\<forall>x. \<bar>x - u\<bar> \<le> 32 * msPerDay \<longrightarrow> offsetAtUTC z x = c \<and> offsetAtLocal z (x + c) = c)"

text \<open>
  A \<^verbatim>\<open>Date\<close> object is its time value: \<open>Some t\<close>, or \<open>None\<close> for \<^verbatim>\<open>NaN\<close> (an invalid
  date). A number that a getter returns or a setter takes is an integer or \<^verbatim>\<open>NaN\<close>.
\<close>

type_synonym date = "int option"
type_synonym number = "int option"

definition getFullYear :: "time_zone \<Rightarrow> date \<Rightarrow> number" where
  "getFullYear z d = (case d of None \<Rightarrow> None | Some t \<Rightarrow> Some (YearFromTime (LocalTime z t)))"

definition getMonth :: "time_zone \<Rightarrow> date \<Rightarrow> number" where
  "getMonth z d = (case d of None \<Rightarrow> None | Some t \<Rightarrow> Some (MonthFromTime (LocalTime z t)))"

definition getDate :: "time_zone \<Rightarrow> date \<Rightarrow> number" where
  "getDate z d = (case d of None \<Rightarrow> None | Some t \<Rightarrow> Some (DateFromTime (LocalTime z t)))"

definition getDay :: "time_zone \<Rightarrow> date \<Rightarrow> number" where
  "getDay z d = (case d of None \<Rightarrow> None | Some t \<Rightarrow> Some (WeekDay (LocalTime z t)))"

definition getTime :: "date \<Rightarrow> number" where
  "getTime d = d"

definition numAdd :: "number \<Rightarrow> number \<Rightarrow> number" where
  "numAdd a b =
     (case a of None \<Rightarrow> None | Some x \<Rightarrow> (case b of None \<Rightarrow> None | Some y \<Rightarrow> Some (x + y)))"

definition numSub :: "number \<Rightarrow> number \<Rightarrow> number" where
  "numSub a b =
     (case a of None \<Rightarrow> None | Some x \<Rightarrow> (case b of None \<Rightarrow> None | Some y \<Rightarrow> Some (x - y)))"

text \<open>\<^verbatim>\<open>d.setMonth(month)\<close>, \<^verbatim>\<open>d.setDate(date)\<close>, \<^verbatim>\<open>d.setHours(h, m, s, ms)\<close> and
  \<^verbatim>\<open>d.setTime(time)\<close>: the new time value of \<open>d\<close>. The first three read the local time
  \<open>t\<close> of \<open>d\<close>, build the new local time and convert it back.\<close>

definition setMonth :: "time_zone \<Rightarrow> number \<Rightarrow> date \<Rightarrow> date" where
  "setMonth z month d =
     (case d of
        None \<Rightarrow> None
      | Some u \<Rightarrow>
          (case month of
             None \<Rightarrow> None
           | Some m \<Rightarrow>
               (let t = LocalTime z u
                in TimeClip (UTC z (MakeDate (MakeDay (YearFromTime t) m (DateFromTime t))
                                             (TimeWithinDay t))))))"

definition setDate :: "time_zone \<Rightarrow> number \<Rightarrow> date \<Rightarrow> date" where
  "setDate z date d =
     (case d of
        None \<Rightarrow> None
      | Some u \<Rightarrow>
          (case date of
             None \<Rightarrow> None
           | Some dt \<Rightarrow>
               (let t = LocalTime z u
                in TimeClip (UTC z (MakeDate (MakeDay (YearFromTime t) (MonthFromTime t) dt)
                                             (TimeWithinDay t))))))"


definition setTime :: "number \<Rightarrow> date \<Rightarrow> date" where
  "setTime time d = (case time of None \<Rightarrow> None | Some t \<Rightarrow> TimeClip t)"

text \<open>\<^verbatim>\<open>new Date(d)\<close> for a \<^verbatim>\<open>Date\<close> \<open>d\<close>: a new object with the same time value.\<close>

definition copyDate :: "date \<Rightarrow> date" where
  "copyDate d = d"

text \<open>\<^verbatim>\<open>new Date(year, month, date)\<close>: local midnight of that day; a year from 0 to 99 means
  1900 + year.\<close>

definition newDateYMD :: "time_zone \<Rightarrow> number \<Rightarrow> number \<Rightarrow> number \<Rightarrow> date" where
  "newDateYMD z year month date =
     (case year of
        None \<Rightarrow> None
      | Some y \<Rightarrow>
          (case month of
             None \<Rightarrow> None
           | Some m \<Rightarrow>
               (case date of
                  None \<Rightarrow> None
                | Some dt \<Rightarrow>
                    (let yr = (if 0 \<le> y \<and> y \<le> 99 then 1900 + y else y)
                     in TimeClip (UTC z (MakeDate (MakeDay yr m dt) (MakeTime 0 0 0 0)))))))"

text \<open>\<^verbatim>\<open>a < b\<close> and \<^verbatim>\<open>a <= b\<close> on dates compare the time values: a comparison with \<^verbatim>\<open>NaN\<close>
  is false.\<close>

definition dateLess :: "date \<Rightarrow> date \<Rightarrow> bool" where
  "dateLess a b =
     (case a of None \<Rightarrow> False | Some x \<Rightarrow> (case b of None \<Rightarrow> False | Some y \<Rightarrow> x < y))"

definition dateLessEq :: "date \<Rightarrow> date \<Rightarrow> bool" where
  "dateLessEq a b =
     (case a of None \<Rightarrow> False | Some x \<Rightarrow> (case b of None \<Rightarrow> False | Some y \<Rightarrow> x \<le> y))"


section \<open>Chart navigation (hooks/useChartNavigation.js)\<close>

text \<open>Every function of the hook takes the time zone of the system as its first argument.\<close>

definition navigationType :: "string \<Rightarrow> string" where
  "navigationType chartType = (if chartType = ''mood'' then ''month'' else ''week'')"

text \<open>The state updaters of \<^verbatim>\<open>goToPrevious\<close> and \<^verbatim>\<open>goToNext\<close>: from the reference date
  \<open>prev\<close> to the new one.\<close>

definition goToPrevious :: "time_zone \<Rightarrow> string \<Rightarrow> date \<Rightarrow> date" where
  "goToPrevious z chartType prev =
     (let newDate = copyDate prev
      in if navigationType chartType = ''month''
         then setMonth z (numSub (getMonth z newDate) (Some 1)) newDate
         else setDate z (numSub (getDate z newDate) (Some 7)) newDate)"

definition goToNext :: "time_zone \<Rightarrow> string \<Rightarrow> date \<Rightarrow> date" where
  "goToNext z chartType prev =
     (let newDate = copyDate prev
      in if navigationType chartType = ''month''
         then setMonth z (numAdd (getMonth z newDate) (Some 1)) newDate
         else setDate z (numAdd (getDate z newDate) (Some 7)) newDate)"

text \<open>The object \<^verbatim>\<open>{ start, end }\<close>.\<close>

record date_range =
  range_start :: date
  range_end :: date


text \<open>\<^verbatim>\<open>new Date(2024, 6, 1)\<close> and \<^verbatim>\<open>new Date(2025, 6, 31)\<close>\<close>

definition dataStartDate :: "time_zone \<Rightarrow> date" where
  "dataStartDate z = newDateYMD z (Some 2024) (Some 6) (Some 1)"

definition dataEndDate :: "time_zone \<Rightarrow> date" where
  "dataEndDate z = newDateYMD z (Some 2025) (Some 6) (Some 31)"

text \<open>
  \<^verbatim>\<open>
  const endOfThreeMonths = new Date(currentDate);
  const startOfThreeMonths = new Date(currentDate);
  startOfThreeMonths.setMonth(startOfThreeMonths.getMonth() - 3);
  // Ensure we don't go before the data start date (July 1, 2024)
  const dataStartDate = new Date(2024, 6, 1);
  if (startOfThreeMonths < dataStartDate) {
    startOfThreeMonths.setTime(dataStartDate.getTime());
  }
  // Ensure we don't go beyond the data end date (July 31, 2025)
  const dataEndDate = new Date(2025, 6, 31);
  if (endOfThreeMonths > dataEndDate) {
    endOfThreeMonths.setTime(dataEndDate.getTime());
  }
  return { start: startOfThreeMonths, end: endOfThreeMonths };
  \<close>
\<close>

definition getThreeMonthRange :: "time_zone \<Rightarrow> date \<Rightarrow> date_range" where
  "getThreeMonthRange z currentDate =
     (let endOfThreeMonths0 = copyDate currentDate;
          startOfThreeMonths0 = copyDate currentDate;
          startOfThreeMonths1 =
            setMonth z (numSub (getMonth z startOfThreeMonths0) (Some 3)) startOfThreeMonths0;
          startOfThreeMonths =
            (if dateLess startOfThreeMonths1 (dataStartDate z)
             then setTime (getTime (dataStartDate z)) startOfThreeMonths1
             else startOfThreeMonths1);
          endOfThreeMonths =
            (if dateLess (dataEndDate z) endOfThreeMonths0
             then setTime (getTime (dataEndDate z)) endOfThreeMonths0
             else endOfThreeMonths0)
      in \<lparr>range_start = startOfThreeMonths, range_end = endOfThreeMonths\<rparr>)"


section \<open>Lemmas: registry and chart ids\<close>

lemma truthy_length: "(truthy v \<and> lengthPositive v) = nonEmptyArray v"
  by (cases v rule: truthy.cases) (auto simp: nonEmptyArray_def)

lemma setProp_fresh: "key \<notin> fst ` set acc \<Longrightarrow> setProp acc key v = acc @ [(key, v)]"
  by (induction acc key v rule: setProp.induct) auto

lemma availableStep_alt:
  "availableStep d acc (key, viz) = (if keyHasData d key then setProp acc key viz else acc)"
  by (auto simp: availableStep_def keyHasData_def truthy_length Let_def)

lemma foldl_available:
  "distinct (map fst vs) \<Longrightarrow> fst ` set acc \<inter> fst ` set vs = {} \<Longrightarrow>
   foldl (availableStep d) acc vs = acc @ filter (\<lambda>e. keyHasData d (fst e)) vs"
proof (induction vs arbitrary: acc)
  case Nil
  then show ?case by simp
next
  case (Cons e vs)
  obtain key viz where e: "e = (key, viz)" by (cases e)
  show ?case
  proof (cases "keyHasData d key")
    case True
    have fresh: "key \<notin> fst ` set acc" using Cons.prems(2) e by auto
    have "foldl (availableStep d) (acc @ [(key, viz)]) vs
            = (acc @ [(key, viz)]) @ filter (\<lambda>e. keyHasData d (fst e)) vs"
      using Cons.prems e by (intro Cons.IH) auto
    then show ?thesis using True e fresh by (simp add: availableStep_alt setProp_fresh)
  next
    case False
    have "foldl (availableStep d) acc vs = acc @ filter (\<lambda>e. keyHasData d (fst e)) vs"
      using Cons.prems e by (intro Cons.IH) auto
    then show ?thesis using False e by (simp add: availableStep_alt)
  qed
qed

lemma distinct_registry: "distinct (map fst (allVisualizations cfg))"
  by (simp add: allVisualizations_def)

lemma available_filter:
  "availableVisualizations (allVisualizations cfg) (Some d)
     = filter (\<lambda>e. keyHasData d (fst e)) (allVisualizations cfg)"
  using foldl_available [OF distinct_registry, of "[]" cfg d]
  by (simp add: availableVisualizations_def)

lemma digitValue_digitChar: "d < 10 \<Longrightarrow> digitValue (digitChar d) = d"
proof -
  assume "d < 10"
  then have "d \<in> {0,1,2,3,4,5,6,7,8,9}" by auto
  then show ?thesis by (auto simp: digitValue_def digitChar_def)
qed

lemma parseDigits_numberToString: "parseDigits (numberToString n) = n"
proof (induction n rule: numberToString.induct)
  case (1 n)
  show ?case
  proof (cases "n < 10")
    case True
    then show ?thesis
      by (subst numberToString.simps) (simp add: parseDigits_def digitValue_digitChar)
  next
    case False
    have "parseDigits (numberToString (n div 10) @ [digitChar (n mod 10)])
            = 10 * parseDigits (numberToString (n div 10)) + digitValue (digitChar (n mod 10))"
      by (simp add: parseDigits_def)
    also have "\<dots> = 10 * (n div 10) + n mod 10"
      using 1 False by (simp add: digitValue_digitChar)
    finally show ?thesis using False by (subst numberToString.simps) simp
  qed
qed

lemma numberToString_inj: "numberToString m = numberToString n \<Longrightarrow> m = n"
  by (metis parseDigits_numberToString)

lemma chartId_inj: "chartId v m = chartId v n \<Longrightarrow> m = n"
  by (auto simp: chartId_def dest: numberToString_inj)

lemma distinct_chartIds: "distinct (map (chartId v) [0..<n])"
  by (auto simp: distinct_map intro!: inj_onI dest: chartId_inj)

lemma foldl_setProp_fresh:
  "distinct (map fst ps) \<Longrightarrow> fst ` set acc \<inter> fst ` set ps = {} \<Longrightarrow>
   foldl (\<lambda>acc (k, i). setProp acc k (f i)) acc ps = acc @ map (\<lambda>(k, i). (k, f i)) ps"
proof (induction ps arbitrary: acc)
  case Nil
  then show ?case by simp
next
  case (Cons p ps)
  obtain k i where p: "p = (k, i)" by (cases p)
  have fresh: "k \<notin> fst ` set acc" using Cons.prems(2) p by auto
  have "foldl (\<lambda>acc (k, i). setProp acc k (f i)) (acc @ [(k, f i)]) ps
          = (acc @ [(k, f i)]) @ map (\<lambda>(k, i). (k, f i)) ps"
    using Cons.prems p by (intro Cons.IH) auto
  then show ?case using p fresh by (simp add: setProp_fresh)
qed

lemma selected_zip:
  "selectedVisualizations v available
     = zip (map (chartId v) [0..<length available]) (map Some (objectKeys available))"
proof -
  let ?n = "length available"
  let ?ids = "map (chartId v) [0..<?n]"
  let ?keys = "objectKeys available"
  have d: "distinct (map fst (zip ?ids [0..<?n]))"
    by (simp add: distinct_chartIds)
  have "selectedVisualizations v available
          = map (\<lambda>(k, i). (k, nthOpt ?keys i)) (zip ?ids [0..<?n])"
    using foldl_setProp_fresh [OF d, of "[]" "nthOpt ?keys"]
    by (simp add: selectedVisualizations_def objectKeys_def Let_def)
  also have "\<dots> = zip ?ids (map Some ?keys)"
    by (rule nth_equalityI) (auto simp: nthOpt_def objectKeys_def)
  finally show ?thesis .
qed

lemma available_keys_sublist:
  "objectKeys (availableVisualizations (allVisualizations cfg) patientData)
     = filter (\<lambda>key. key \<in> set (objectKeys
                  (availableVisualizations (allVisualizations cfg) patientData)))
         (objectKeys (allVisualizations cfg))"
proof (cases patientData)
  case None
  then show ?thesis by (simp add: availableVisualizations_def objectKeys_def)
next
  case (Some d)
  have "map fst (filter (\<lambda>e. keyHasData d (fst e)) (allVisualizations cfg))
          = filter (keyHasData d) (map fst (allVisualizations cfg))"
    by (simp add: filter_map comp_def)
  moreover have "filter (keyHasData d) (map fst (allVisualizations cfg))
          = filter (\<lambda>key. key \<in> set (filter (keyHasData d) (map fst (allVisualizations cfg))))
              (map fst (allVisualizations cfg))"
    by (rule filter_cong) auto
  ultimately show ?thesis by (simp add: Some available_filter objectKeys_def)
qed


section \<open>Lemmas: patient data state\<close>

lemma data_loaded_settled:
  "reachable s \<Longrightarrow> data s \<noteq> None \<Longrightarrow> \<not> loading s \<and> error s = None"
proof (induction rule: reachable.induct)
  case reach_init
  then show ?case by (simp add: initialState_def)
next
  case (reach_effect s getPatientData patientId)
  then show ?case
    by (auto simp: patientIdEffect_def loadData_def applyUpdates_def
             split: if_splits sum.splits)
next
  case (reach_refetch s getPatientData patientId)
  then show ?case
    by (auto simp: refetch_def loadData_def applyUpdates_def
             split: if_splits sum.splits)
next
  case (reach_clear s)
  then show ?case by (simp add: clearData_def applyUpdates_def)
qed

lemma effect_cases:
  "patientIdEffect gp pid s =
    (if \<not> truthyId pid
     then s\<lparr>data := None, error := None, lastFetchedId := None, loading := False\<rparr>
     else if cacheHit pid s then s
     else if \<not> isString pid then s\<lparr>loading := False, data := None, error := None\<rparr>
     else (case tryBlock (gp (stringOf pid)) of
             Inr pd \<Rightarrow>
               s\<lparr>loading := False, error := None, data := Some pd,
                 lastFetchedId := Some (stringOf pid)\<rparr>
           | Inl msg \<Rightarrow> s\<lparr>loading := False, error := Some msg, data := None\<rparr>))"
  by (auto simp: patientIdEffect_def loadData_def applyUpdates_def split: sum.splits)

lemma refetch_cases:
  "refetch gp pid s =
    (if \<not> truthyId pid then s
     else if cacheHit pid s then s\<lparr>lastFetchedId := None\<rparr>
     else if \<not> isString pid
     then s\<lparr>lastFetchedId := None, loading := False, data := None, error := None\<rparr>
     else (case tryBlock (gp (stringOf pid)) of
             Inr pd \<Rightarrow>
               s\<lparr>loading := False, error := None, data := Some pd,
                 lastFetchedId := Some (stringOf pid)\<rparr>
           | Inl msg \<Rightarrow>
               s\<lparr>lastFetchedId := None, loading := False, error := Some msg, data := None\<rparr>))"
  by (auto simp: refetch_def loadData_def applyUpdates_def split: sum.splits)

lemma orEmptyArray_props:
  "orEmptyArray v \<noteq> None \<and> orEmptyArray v \<noteq> Some JNull
   \<and> (\<not> truthy v \<longrightarrow> orEmptyArray v = Some (JArray []))
   \<and> (truthy v \<longrightarrow> orEmptyArray v = v)
   \<and> lengthPositive (orEmptyArray v) = nonEmptyArray v"
  by (cases v rule: truthy.cases) (auto simp: orEmptyArray_def nonEmptyArray_def)


section \<open>Lemmas: the calendar\<close>

text \<open>
  The day number of a year's first day grows by the year's length, so it is strictly
  increasing; the computed year is the one whose days contain the given day; the month
  and the date computed from a time value give that day back through \<open>MakeDay\<close>, and
  a month and a date that exists in it are the month and the date of the day that
  \<open>MakeDay\<close> returns for them.
\<close>

lemma div_succ_int:
  fixes a k :: int
  assumes "0 < k"
  shows "(a + 1) div k = a div k + (if (a + 1) mod k = 0 then 1 else 0)"
proof -
  define q where "q = a div k"
  define r where "r = a mod k"
  have a: "a = k * q + r" by (simp add: q_def r_def)
  have r: "0 \<le> r" "r < k" using assms by (simp_all add: r_def)
  show ?thesis
  proof (cases "r + 1 = k")
    case True
    then have "a + 1 = k * (q + 1) + 0" using a by (simp add: algebra_simps)
    then have "(a + 1) div k = q + 1" "(a + 1) mod k = 0"
      using assms int_div_pos_eq [of "a + 1" k "q + 1" 0] int_mod_pos_eq [of "a + 1" k "q + 1" 0]
      by simp_all
    then show ?thesis by (simp add: q_def)
  next
    case False
    have "a + 1 = k * q + (r + 1)" using a by simp
    moreover have "0 \<le> r + 1" "r + 1 < k" using r False by auto
    ultimately have "(a + 1) div k = q" "(a + 1) mod k = r + 1"
      using int_div_pos_eq [of "a + 1" k q "r + 1"] int_mod_pos_eq [of "a + 1" k q "r + 1"]
      by simp_all
    then show ?thesis using r by (simp add: q_def)
  qed
qed

lemma mod_shift4: "(y - 1968) mod 4 = y mod 4" for y :: int
proof -
  have "y - 1968 = y + 4 * (- 492)" by simp
  then show ?thesis by (metis mod_mult_self2)
qed

lemma mod_shift100: "(y - 1900) mod 100 = y mod 100" for y :: int
proof -
  have "y - 1900 = y + 100 * (- 19)" by simp
  then show ?thesis by (metis mod_mult_self2)
qed

lemma mod_shift400: "(y - 1600) mod 400 = y mod 400" for y :: int
proof -
  have "y - 1600 = y + 400 * (- 4)" by simp
  then show ?thesis by (metis mod_mult_self2)
qed

lemma m100_4: "y mod 100 = 0 \<Longrightarrow> y mod 4 = 0" for y :: int
proof -
  assume "y mod 100 = 0"
  then obtain q where "y = 100 * q" by (auto simp: mod_eq_0_iff_dvd)
  then have "y = 4 * (25 * q)" by simp
  then show ?thesis by (metis mod_mult_self1_is_0)
qed

lemma m400_100: "y mod 400 = 0 \<Longrightarrow> y mod 100 = 0" for y :: int
proof -
  assume "y mod 400 = 0"
  then obtain q where "y = 400 * q" by (auto simp: mod_eq_0_iff_dvd)
  then have "y = 100 * (4 * q)" by simp
  then show ?thesis by (metis mod_mult_self1_is_0)
qed

lemma DayFromYear_Suc: "DayFromYear (y + 1) = DayFromYear y + DaysInYear y"
proof -
  have a: "(y - 1968) div 4 = (y - 1969) div 4 + (if y mod 4 = 0 then 1 else 0)"
    using div_succ_int [of 4 "y - 1969"] by (simp add: mod_shift4)
  have b: "(y - 1900) div 100 = (y - 1901) div 100 + (if y mod 100 = 0 then 1 else 0)"
    using div_succ_int [of 100 "y - 1901"] by (simp add: mod_shift100)
  have c: "(y - 1600) div 400 = (y - 1601) div 400 + (if y mod 400 = 0 then 1 else 0)"
    using div_succ_int [of 400 "y - 1601"] by (simp add: mod_shift400)
  have "DayFromYear (y + 1)
          = 365 * (y - 1969) + (y - 1968) div 4 - (y - 1900) div 100 + (y - 1600) div 400"
    by (simp add: DayFromYear_def)
  then show ?thesis
    using m100_4 [of y] m400_100 [of y]
    by (simp add: a b c DayFromYear_def DaysInYear_def)
qed

lemma DaysInYear_bounds: "365 \<le> DaysInYear y \<and> DaysInYear y \<le> 366"
  by (simp add: DaysInYear_def)

lemma DaysInYear_cases: "DaysInYear y = 365 \<or> DaysInYear y = 366"
  by (simp add: DaysInYear_def)

lemma DayFromYear_add: "DayFromYear y + 365 * int n \<le> DayFromYear (y + int n)"
proof (induction n)
  case 0
  then show ?case by simp
next
  case (Suc n)
  have "y + int (Suc n) = (y + int n) + 1" by simp
  then have "DayFromYear (y + int (Suc n)) = DayFromYear (y + int n) + DaysInYear (y + int n)"
    using DayFromYear_Suc [of "y + int n"] by presburger
  then show ?case using Suc DaysInYear_bounds [of "y + int n"] by simp
qed

lemma DayFromYear_mono: "y \<le> z \<Longrightarrow> DayFromYear y \<le> DayFromYear z"
  using DayFromYear_add [of y "nat (z - y)"] by simp

lemma DayFromYear_less: "y < z \<Longrightarrow> DayFromYear y < DayFromYear z"
proof -
  assume "y < z"
  then have "y + 1 \<le> z" by simp
  then have "DayFromYear (y + 1) \<le> DayFromYear z" by (rule DayFromYear_mono)
  then show ?thesis using DayFromYear_Suc [of y] DaysInYear_bounds [of y] by simp
qed

lemma div_bounds: "0 < k \<Longrightarrow> k * (x div k) \<le> x \<and> x < k * (x div k) + k" for x k :: int
proof -
  assume k: "0 < k"
  have "x = k * (x div k) + x mod k" by simp
  moreover have "0 \<le> x mod k" "x mod k < k" using k by simp_all
  ultimately show ?thesis by linarith
qed

lemma DayFromYear_approx:
  "146097 * (y - 1970) - 506 \<le> 400 * DayFromYear y
   \<and> 400 * DayFromYear y \<le> 146097 * (y - 1970) + 589"
proof -
  define a where "a = (y - 1969) div 4"
  define b where "b = (y - 1901) div 100"
  define c where "c = (y - 1601) div 400"
  have a: "4 * a \<le> y - 1969 \<and> y - 1969 < 4 * a + 4"
    unfolding a_def by (rule div_bounds) simp
  have b: "100 * b \<le> y - 1901 \<and> y - 1901 < 100 * b + 100"
    unfolding b_def by (rule div_bounds) simp
  have c: "400 * c \<le> y - 1601 \<and> y - 1601 < 400 * c + 400"
    unfolding c_def by (rule div_bounds) simp
  have "DayFromYear y = 365 * (y - 1970) + a - b + c"
    by (simp add: DayFromYear_def a_def b_def c_def)
  have d: "400 * DayFromYear y = 146000 * (y - 1970) + 400 * a - 400 * b + 400 * c"
    using \<open>DayFromYear y = 365 * (y - 1970) + a - b + c\<close> by simp
  have a1: "100 * (y - 1969) - 300 \<le> 400 * a" "400 * a \<le> 100 * (y - 1969)" using a by simp_all
  have b1: "4 * (y - 1901) - 396 \<le> 400 * b" "400 * b \<le> 4 * (y - 1901)" using b by simp_all
  have c1: "(y - 1601) - 399 \<le> 400 * c" "400 * c \<le> y - 1601" using c by simp_all
  have "146097 * (y - 1970) - 506 \<le> 400 * DayFromYear y"
    using d a1 b1 c1 by simp
  moreover have "400 * DayFromYear y \<le> 146097 * (y - 1970) + 589"
    using d a1 b1 c1 by simp
  ultimately have "146097 * (y - 1970) - 506 \<le> 400 * DayFromYear y"
    and "400 * DayFromYear y \<le> 146097 * (y - 1970) + 589"
    by simp_all
  then show ?thesis by simp
qed

lemma YearFromTime_spec:
  "DayFromYear (YearFromTime t) \<le> Day t \<and> Day t < DayFromYear (YearFromTime t + 1)"
proof -
  define d where "d = Day t"
  define y0 where "y0 = 1970 + (400 * d) div 146097"
  have q: "146097 * (y0 - 1970) \<le> 400 * d \<and> 400 * d < 146097 * (y0 - 1970) + 146097"
    using div_bounds [of 146097 "400 * d"] by (simp add: y0_def)
  have lo: "DayFromYear (y0 - 1) \<le> d"
    using DayFromYear_approx [of "y0 - 1"] q by simp
  have hi: "d < DayFromYear (y0 + 2)"
    using DayFromYear_approx [of "y0 + 2"] q by simp
  have Y: "YearFromTime t =
             (if DayFromYear (y0 + 1) \<le> d then y0 + 1
              else if DayFromYear y0 \<le> d then y0 else y0 - 1)"
    by (simp add: YearFromTime_def d_def y0_def Let_def)
  have s: "y0 + 1 + 1 = y0 + 2" "y0 - 1 + 1 = y0" by simp_all
  show ?thesis
    unfolding d_def [symmetric] Y using lo hi by (simp add: s)
qed


lemma DayWithinYear_bounds:
  "0 \<le> DayWithinYear t \<and> DayWithinYear t < DaysInYear (YearFromTime t)"
  using YearFromTime_spec [of t] DayFromYear_Suc [of "YearFromTime t"]
  by (simp add: DayWithinYear_def)

lemma DayWithinYear_leap:
  "0 \<le> DayWithinYear t \<and> DayWithinYear t < 365 + InLeapYear t
   \<and> (InLeapYear t = 0 \<or> InLeapYear t = 1)"
  using DayWithinYear_bounds [of t] DaysInYear_cases [of "YearFromTime t"]
  by (auto simp: InLeapYear_def)

lemma MonthFromTime_bounds: "0 \<le> MonthFromTime t \<and> MonthFromTime t \<le> 11"
  by (simp add: MonthFromTime_def Let_def)

lemma DayFromMonth_fields:
  "DayFromMonth (MonthFromTime t) (InLeapYear t) + DateFromTime t - 1 = DayWithinYear t"
  using DayWithinYear_leap [of t]
  by (simp add: DayFromMonth_def MonthFromTime_def DateFromTime_def Let_def)

lemma MakeDay_fields:
  "MakeDay (YearFromTime t) (MonthFromTime t) (DateFromTime t) = Day t"
proof -
  have "MonthFromTime t div 12 = 0" "MonthFromTime t mod 12 = MonthFromTime t"
    using MonthFromTime_bounds [of t] by simp_all
  then show ?thesis
    using DayFromMonth_fields [of t]
    by (simp add: MakeDay_def InLeapYear_def DayWithinYear_def Let_def)
qed





lemma MakeDay_date: "MakeDay y m (d + k) = MakeDay y m d + k"
  by (simp add: MakeDay_def Let_def)












lemma MakeDate_Day: "MakeDate (Day t) (TimeWithinDay t) = t"
  by (simp add: MakeDate_def Day_def TimeWithinDay_def)





section \<open>Lemmas: navigation\<close>

lemma TimeClip_valid: "\<bar>x\<bar> \<le> maxTimeValue \<Longrightarrow> TimeClip x = Some x"
  by (simp add: TimeClip_def)

lemma MakeDate_shift: "MakeDate (Day t + k) (TimeWithinDay t) = t + k * msPerDay"
  using MakeDate_Day [of t] by (simp add: MakeDate_def algebra_simps)













text \<open>In a zone that keeps the offset \<open>c\<close> around \<open>u\<close>, local time is \<open>x + c\<close> there.\<close>

lemma steady_LocalTime:
  assumes z: "steadyAround z c u" and x: "\<bar>x - u\<bar> \<le> 32 * msPerDay"
  shows "LocalTime z x = x + c"
  using z x by (simp add: steadyAround_def LocalTime_def)

lemma steady_local:
  assumes r: "\<bar>u\<bar> + 32 * msPerDay \<le> maxTimeValue"
    and z: "steadyAround z c u"
    and n: "\<bar>L - c - u\<bar> \<le> 32 * msPerDay"
  shows "TimeClip (UTC z L) = Some (L - c)"
proof -
  have "offsetAtLocal z (L - c + c) = c"
    using z n unfolding steadyAround_def by blast
  then have "UTC z L = L - c" by (simp add: UTC_def)
  moreover have "\<bar>L - c\<bar> \<le> maxTimeValue"
    using r n by (simp add: msPerDay_def abs_if split: if_splits)
  ultimately show ?thesis by (simp add: TimeClip_valid)
qed

lemma near_self: "\<bar>u - u\<bar> \<le> 32 * msPerDay"
  by (simp add: msPerDay_def)

lemma near_shift: "\<bar>k\<bar> \<le> 32 \<Longrightarrow> \<bar>u + k * msPerDay - u\<bar> \<le> 32 * msPerDay"
  by (simp add: msPerDay_def abs_if split: if_splits)

lemma setDate_steady:
  assumes r: "\<bar>u\<bar> + 32 * msPerDay \<le> maxTimeValue"
    and z: "steadyAround z c u"
    and x: "\<bar>x - u\<bar> \<le> 32 * msPerDay"
    and y: "\<bar>x + (n - DateFromTime (x + c)) * msPerDay - u\<bar> \<le> 32 * msPerDay"
  shows "setDate z (Some n) (Some x) = Some (x + (n - DateFromTime (x + c)) * msPerDay)"
proof -
  have "MakeDay (YearFromTime (x + c)) (MonthFromTime (x + c))
          (DateFromTime (x + c) + (n - DateFromTime (x + c)))
          = Day (x + c) + (n - DateFromTime (x + c))"
    by (simp only: MakeDay_date MakeDay_fields)
  then have "MakeDay (YearFromTime (x + c)) (MonthFromTime (x + c)) n
               = Day (x + c) + (n - DateFromTime (x + c))"
    by simp
  then have m: "MakeDate (MakeDay (YearFromTime (x + c)) (MonthFromTime (x + c)) n)
                  (TimeWithinDay (x + c))
                  = x + c + (n - DateFromTime (x + c)) * msPerDay"
    by (simp add: MakeDate_shift)
  have "\<bar>x + c + (n - DateFromTime (x + c)) * msPerDay - c - u\<bar> \<le> 32 * msPerDay"
    using y by (simp add: algebra_simps)
  then have "TimeClip (UTC z (x + c + (n - DateFromTime (x + c)) * msPerDay))
               = Some (x + c + (n - DateFromTime (x + c)) * msPerDay - c)"
    by (rule steady_local [OF r z])
  then show ?thesis
    by (simp add: setDate_def steady_LocalTime [OF z x] m Let_def)
qed


lemma week_step:
  assumes r: "\<bar>u\<bar> + 32 * msPerDay \<le> maxTimeValue"
    and z: "steadyAround z c u"
    and x: "\<bar>x - u\<bar> \<le> 32 * msPerDay"
    and y: "\<bar>x + k * msPerDay - u\<bar> \<le> 32 * msPerDay"
  shows "setDate z (Some (DateFromTime (x + c) + k)) (Some x) = Some (x + k * msPerDay)"
  using setDate_steady [OF r z x, of "DateFromTime (x + c) + k"] y by simp

lemma getDate_steady:
  assumes z: "steadyAround z c u" and x: "\<bar>x - u\<bar> \<le> 32 * msPerDay"
  shows "getDate z (Some x) = Some (DateFromTime (x + c))"
    and "getDay z (Some x) = Some (WeekDay (x + c))"
    and "getMonth z (Some x) = Some (MonthFromTime (x + c))"
    and "getFullYear z (Some x) = Some (YearFromTime (x + c))"
  using steady_LocalTime [OF z x]
  by (simp_all add: getDate_def getDay_def getMonth_def getFullYear_def)

lemma week_moves:
  assumes r: "\<bar>u\<bar> + 32 * msPerDay \<le> maxTimeValue"
    and z: "steadyAround z c u"
    and week: "chartType \<noteq> ''mood''"
  shows "goToPrevious z chartType (Some u) = Some (u - 7 * msPerDay)"
    and "goToNext z chartType (Some u) = Some (u + 7 * msPerDay)"
  using week_step [OF r z near_self, of "- 7"] week_step [OF r z near_self, of 7]
        near_shift [of "- 7" u] near_shift [of 7 u] week
  by (simp_all add: goToPrevious_def goToNext_def navigationType_def copyDate_def
        getDate_steady [OF z near_self] numSub_def numAdd_def)













section \<open>Lemmas: rendering\<close>

text \<open>For a type that names no member of \<^verbatim>\<open>Object.prototype\<close> the lookup in the registry is
  the lookup of an own property, and the render functions decide three ways: no patient,
  unknown type, registered chart.\<close>

lemma getMember_own:
  "key \<notin> set objectPrototypeKeys \<Longrightarrow>
     getMember obj key = (case getProp obj key of None \<Rightarrow> Missing | Some v \<Rightarrow> Own v)"
  by (simp add: getMember_def getProp_def split: option.splits)

lemma getMember_inherited:
  "key \<in> set objectPrototypeKeys \<Longrightarrow> getProp obj key = None \<Longrightarrow> getMember obj key = Inherited"
  by (simp add: getMember_def getProp_def)

lemma render_three_way_own_keys:
  assumes "vt \<notin> set objectPrototypeKeys"
  shows "(\<not> truthyId pid \<longrightarrow>
      renderVisualization pid allVis ex vt item
        = Placeholder ''Please select a patient to view data.'' ''select-patient''
      \<and> renderVisualizationWithMode pid allVis ex vt item
        = Placeholder ''Please select a patient to view data.'' ''select-patient'')
   \<and> (truthyId pid \<and> getProp allVis vt = None \<longrightarrow>
      renderVisualization pid allVis ex vt item = Placeholder ''Invalid visualization'' ''error''
      \<and> renderVisualizationWithMode pid allVis ex vt item
        = Placeholder ''Invalid visualization'' ''error'')
   \<and> (truthyId pid \<and> getProp allVis vt = Some viz \<longrightarrow>
      (\<exists>props. renderVisualization pid allVis ex vt item = ChartElement (component viz) props
         \<and> patientId_prop props = pid \<and> isExpanded_prop props = isExpanded ex item
         \<and> onExpand_prop props = item)
      \<and> (\<exists>props. renderVisualizationWithMode pid allVis ex vt item
                    = ChartElement (component viz) props
         \<and> patientId_prop props = pid \<and> isExpanded_prop props = isExpanded ex item
         \<and> onExpand_prop props = item \<and> viewMode_prop props = ''physician''))
   \<and> isPlaceholder (renderVisualization pid allVis ex vt item)
       = (\<not> truthyId pid \<or> getProp allVis vt = None)
   \<and> isPlaceholder (renderVisualizationWithMode pid allVis ex vt item)
       = isPlaceholder (renderVisualization pid allVis ex vt item)"
  by (cases "getProp allVis vt")
     (auto simp: renderVisualization_def renderVisualizationWithMode_def isExpanded_def
        getMember_own [OF assms])

text \<open>For every other type that is not registered, they return an element without a
  type, whoever the patient is.\<close>

lemma render_inherited_keys:
  assumes "vt \<in> set objectPrototypeKeys" "getProp allVis vt = None" "truthyId pid"
  shows "\<not> isPlaceholder (renderVisualization pid allVis ex vt item)
         \<and> \<not> isPlaceholder (renderVisualizationWithMode pid allVis ex vt item)"
  using assms
  by (simp add: renderVisualization_def renderVisualizationWithMode_def getMember_inherited)

section \<open>Lemmas: the three-month window\<close>

text \<open>In the time zone UTC, \<open>n\<close> weekly steps forward move the date by \<open>7 n\<close> days.\<close>

lemma utcZone_steady: "steadyAround utcZone 0 u"
  by (simp add: steadyAround_def utcZone_def)

lemma week_steps:
  assumes u: "0 \<le> u" and r: "u + (7 * int n + 32) * msPerDay \<le> maxTimeValue"
    and week: "chartType \<noteq> ''mood''"
  shows "(goToNext utcZone chartType ^^ n) (Some u) = Some (u + int n * (7 * msPerDay))"
  using r
proof (induction n)
  case 0
  then show ?case by simp
next
  case (Suc n)
  have ih: "(goToNext utcZone chartType ^^ n) (Some u) = Some (u + int n * (7 * msPerDay))"
    using Suc by (simp add: msPerDay_def)
  have "\<bar>u + int n * (7 * msPerDay)\<bar> + 32 * msPerDay \<le> maxTimeValue"
    using u Suc.prems by (simp add: msPerDay_def)
  then have "goToNext utcZone chartType (Some (u + int n * (7 * msPerDay)))
               = Some (u + int n * (7 * msPerDay) + 7 * msPerDay)"
    using week_moves (2) [OF _ utcZone_steady week] by blast
  then show ?case by (simp add: ih algebra_simps)
qed

lemma TimeClip_idem: "TimeClip x = Some v \<Longrightarrow> TimeClip v = Some v"
  by (auto simp: TimeClip_def split: if_splits)

lemma newDateYMD_clip: "newDateYMD z y m d = Some v \<Longrightarrow> TimeClip v = Some v"
  by (auto simp: newDateYMD_def Let_def TimeClip_idem split: option.splits)

lemma setTime_getTime: "dateLess a (newDateYMD z y m d) \<Longrightarrow>
    setTime (getTime (newDateYMD z y m d)) b = newDateYMD z y m d"
  by (cases "newDateYMD z y m d")
     (auto simp: setTime_def getTime_def dateLess_def newDateYMD_clip split: option.splits)

lemma setTime_getTime': "dateLess (newDateYMD z y m d) a \<Longrightarrow>
    setTime (getTime (newDateYMD z y m d)) b = newDateYMD z y m d"
  by (cases "newDateYMD z y m d")
     (auto simp: setTime_def getTime_def dateLess_def newDateYMD_clip split: option.splits)


section \<open>Lemmas: selected visualizations and accessors\<close>

lemma selected_props:
  "selectedVisualizations v available
     = zip (map (chartId v) [0..<length available]) (map Some (objectKeys available))
   \<and> length (selectedVisualizations v available) = length (objectKeys available)
   \<and> objectKeys (selectedVisualizations v available)
       = map (chartId v) [0..<length (objectKeys available)]
   \<and> distinct (objectKeys (selectedVisualizations v available))
   \<and> (\<forall>i < length (objectKeys available).
        getProp (selectedVisualizations v available) (chartId v i)
          = Some (Some (objectKeys available ! i)))"
proof -
  define keys where "keys = objectKeys available"
  define sel where "sel = selectedVisualizations v available"
  have n: "length available = length keys" by (simp add: keys_def objectKeys_def)
  have z: "sel = zip (map (chartId v) [0..<length keys]) (map Some keys)"
    unfolding sel_def keys_def n [unfolded keys_def, symmetric] by (rule selected_zip)
  have len: "length sel = length keys" by (simp add: z)
  have ids: "objectKeys sel = map (chartId v) [0..<length keys]"
    by (simp add: z objectKeys_def)
  have d1: "distinct (objectKeys sel)" by (simp add: ids distinct_chartIds)
  have look: "\<forall>i < length keys. getProp sel (chartId v i) = Some (Some (keys ! i))"
  proof (intro allI impI)
    fix i assume i: "i < length keys"
    have "map_of (zip (map (chartId v) [0..<length keys]) (map Some keys))
            (map (chartId v) [0..<length keys] ! i) = Some (map Some keys ! i)"
      using i by (intro map_of_zip_nth) (simp_all add: distinct_chartIds)
    then show "getProp sel (chartId v i) = Some (Some (keys ! i))"
      using i by (simp add: getProp_def z)
  qed
  show ?thesis
    using z len ids d1 look unfolding sel_def keys_def n [unfolded keys_def] by simp
qed

lemma accessor_props:
  "(dat = None \<or> optionalField dat f = None \<longrightarrow>
      orEmptyArray (optionalField dat f) = Some (JArray []))
   \<and> orEmptyArray (optionalField dat f) \<noteq> None
   \<and> orEmptyArray (optionalField dat f) \<noteq> Some JNull
   \<and> lengthPositive (orEmptyArray (optionalField dat f))
       = nonEmptyArray (orEmptyArray (optionalField dat f))"
proof -
  have "dat = None \<Longrightarrow> optionalField dat f = None" by (simp add: optionalField_def)
  then show ?thesis
    by (cases "optionalField dat f" rule: truthy.cases)
       (auto simp: orEmptyArray_def nonEmptyArray_def)
qed


section \<open>The claims\<close>

subsection \<open>C1: the rolling three-month window\<close>

text \<open>
  C1 says that \<^verbatim>\<open>getThreeMonthRange\<close> returns, for every reference date, the window from
  three months before the reference date to the reference date, clamped to the data span
  from 1 July 2024 to 31 July 2025: start and end both lie within the span and
  start \<open>\<le>\<close> end. The code diverges from it.

  In every time zone and for every reference date, the start it returns is the reference
  date moved back three months with \<^verbatim>\<open>setMonth\<close>, replaced by 1 July 2024 only when that
  is earlier, and the end is the reference date, replaced by 31 July 2025 only when the
  reference date is later: the start is never kept from lying after the span, nor the
  end from lying before it. At the reference date \<^verbatim>\<open>new Date(2026, 0, 15)\<close>, which the hook
  reaches from its default date \<^verbatim>\<open>new Date(2025, 4, 1)\<close> by 37 weekly \<^verbatim>\<open>goToNext\<close> steps,
  in the time zone UTC: the start is \<^verbatim>\<open>new Date(2025, 9, 15)\<close>, after the end of the span,
  the end is \<^verbatim>\<open>new Date(2025, 6, 31)\<close>, and the start lies after the end.
\<close>

theorem getThreeMonthRange_one_sided:
  "range_start (getThreeMonthRange z currentDate)
     = (if dateLess (setMonth z (numSub (getMonth z currentDate) (Some 3)) currentDate)
              (dataStartDate z)
        then dataStartDate z
        else setMonth z (numSub (getMonth z currentDate) (Some 3)) currentDate)
   \<and> range_end (getThreeMonthRange z currentDate)
     = (if dateLess (dataEndDate z) currentDate then dataEndDate z else currentDate)
   \<and> (goToNext utcZone ''pain'' ^^ 37) (newDateYMD utcZone (Some 2025) (Some 4) (Some 1))
     = newDateYMD utcZone (Some 2026) (Some 0) (Some 15)
   \<and> range_start (getThreeMonthRange utcZone (newDateYMD utcZone (Some 2026) (Some 0) (Some 15)))
     = newDateYMD utcZone (Some 2025) (Some 9) (Some 15)
   \<and> range_end (getThreeMonthRange utcZone (newDateYMD utcZone (Some 2026) (Some 0) (Some 15)))
     = dataEndDate utcZone
   \<and> dateLess (dataEndDate utcZone)
        (range_start (getThreeMonthRange utcZone (newDateYMD utcZone (Some 2026) (Some 0) (Some 15))))
   \<and> \<not> dateLessEq
          (range_start (getThreeMonthRange utcZone (newDateYMD utcZone (Some 2026) (Some 0) (Some 15))))
          (range_end (getThreeMonthRange utcZone (newDateYMD utcZone (Some 2026) (Some 0) (Some 15))))"
proof (intro conjI)
  show "range_start (getThreeMonthRange z currentDate)
     = (if dateLess (setMonth z (numSub (getMonth z currentDate) (Some 3)) currentDate)
              (dataStartDate z)
        then dataStartDate z
        else setMonth z (numSub (getMonth z currentDate) (Some 3)) currentDate)"
    by (simp add: getThreeMonthRange_def Let_def copyDate_def dataStartDate_def setTime_getTime)
  show "range_end (getThreeMonthRange z currentDate)
     = (if dateLess (dataEndDate z) currentDate then dataEndDate z else currentDate)"
    by (simp add: getThreeMonthRange_def Let_def copyDate_def dataEndDate_def setTime_getTime')
  have a: "newDateYMD utcZone (Some 2025) (Some 4) (Some 1) = Some 1746057600000"
    "newDateYMD utcZone (Some 2026) (Some 0) (Some 15) = Some 1768435200000"
    by code_simp+
  show "(goToNext utcZone ''pain'' ^^ 37) (newDateYMD utcZone (Some 2025) (Some 4) (Some 1))
     = newDateYMD utcZone (Some 2026) (Some 0) (Some 15)"
    unfolding a using week_steps [of 1746057600000 37 "''pain''"]
    by (simp add: msPerDay_def maxTimeValue_def)
qed code_simp+


subsection \<open>C2: the week and month windows\<close>





subsection \<open>C3: previous and next\<close>





subsection \<open>C4: the available visualizations\<close>

text \<open>
  C4. When the data object is \<^verbatim>\<open>null\<close>, no visualization is available. For a patient data
  object of the documented structure, whose metric fields are arrays and which has no
  \<^verbatim>\<open>mealContentsData\<close> field, the available visualizations are the registry entries, in
  registry order, whose data array is non-empty: a metric key is available if and only if
  it is a key of the registry and its array is non-empty, where the array checked is
  \<^verbatim>\<open>data.mealData\<close> for \<open>mealContents\<close> and \<^verbatim>\<open>data[key + 'Data']\<close> for every other key.
\<close>

theorem availableVisualizations_iff:
  "availableVisualizations (allVisualizations cfg) None = []
   \<and> (getProp d ''mealContentsData'' = None \<longrightarrow>
        availableVisualizations (allVisualizations cfg) (Some d)
          = filter (\<lambda>entry. if fst entry = ''mealContents''
                             then nonEmptyArray (getProp d ''mealData'')
                             else nonEmptyArray (getProp d (fst entry @ ''Data'')))
              (allVisualizations cfg)
        \<and> (key \<in> set (objectKeys (availableVisualizations (allVisualizations cfg) (Some d)))
            \<longleftrightarrow> key \<in> set (objectKeys (allVisualizations cfg))
                \<and> (if key = ''mealContents'' then nonEmptyArray (getProp d ''mealData'')
                   else nonEmptyArray (getProp d (key @ ''Data'')))))"
proof (intro conjI impI)
  show "availableVisualizations (allVisualizations cfg) None = []"
    by (simp add: availableVisualizations_def)
next
  assume h: "getProp d ''mealContentsData'' = None"
  have c: "keyHasData d = (\<lambda>k. if k = ''mealContents'' then nonEmptyArray (getProp d ''mealData'')
                                 else nonEmptyArray (getProp d (k @ ''Data'')))"
    by (rule ext) (simp add: keyHasData_def nonEmptyArray_def h)
  show f: "availableVisualizations (allVisualizations cfg) (Some d)
          = filter (\<lambda>entry. if fst entry = ''mealContents''
                             then nonEmptyArray (getProp d ''mealData'')
                             else nonEmptyArray (getProp d (fst entry @ ''Data'')))
              (allVisualizations cfg)"
    by (simp only: available_filter c)
  have "key \<in> set (objectKeys (availableVisualizations (allVisualizations cfg) (Some d)))
        \<longleftrightarrow> key \<in> set (objectKeys (allVisualizations cfg)) \<and> keyHasData d key"
    by (auto simp: available_filter objectKeys_def)
  then show "key \<in> set (objectKeys (availableVisualizations (allVisualizations cfg) (Some d)))
            \<longleftrightarrow> key \<in> set (objectKeys (allVisualizations cfg))
                \<and> (if key = ''mealContents'' then nonEmptyArray (getProp d ''mealData'')
                   else nonEmptyArray (getProp d (key @ ''Data'')))"
    by (simp only: c)
qed

text \<open>
  The theorem at a data object with meals, an empty mood array, two pain reports, a sleep
  field that is \<^verbatim>\<open>null\<close> and no other metric: pain and meal contents are available.
\<close>

theorem availableVisualizations_iff_witness:
  "getProp [(''mealData'', JArray [()]), (''moodData'', JArray []),
            (''painData'', JArray [(), ()]), (''sleepData'', JNull),
            (''patientInfo'', JObject)] ''mealContentsData'' = None
   \<and> objectKeys (availableVisualizations (allVisualizations (\<lambda>k. ()))
        (Some [(''mealData'', JArray [()]), (''moodData'', JArray []),
               (''painData'', JArray [(), ()]), (''sleepData'', JNull),
               (''patientInfo'', JObject)]))
       = [''pain'', ''mealContents'']
   \<and> nonEmptyArray (getProp [(''mealData'', JArray [()]), (''moodData'', JArray []),
            (''painData'', JArray [(), ()]), (''sleepData'', JNull),
            (''patientInfo'', JObject)] ''mealData'')
   \<and> \<not> nonEmptyArray (getProp [(''mealData'', JArray [()]), (''moodData'', JArray []),
            (''painData'', JArray [(), ()]), (''sleepData'', JNull),
            (''patientInfo'', JObject)] (''mood'' @ ''Data''))"
proof -
  let ?d = "[(''mealData'', JArray [()]), (''moodData'', JArray []),
             (''painData'', JArray [(), ()]), (''sleepData'', JNull),
             (''patientInfo'', JObject)]"
  have h: "getProp ?d ''mealContentsData'' = None"
    by (simp add: getProp_def)
  have k: "objectKeys (availableVisualizations (allVisualizations (\<lambda>k. ())) (Some ?d))
             = [''pain'', ''mealContents'']"
    by code_simp
  have r: "''mood'' \<in> set (objectKeys (allVisualizations (\<lambda>k. ())))"
    by (simp add: objectKeys_def allVisualizations_def)
  have "''mealContents''
          \<in> set (objectKeys (availableVisualizations (allVisualizations (\<lambda>k. ())) (Some ?d)))"
    by (simp add: k)
  then have m: "nonEmptyArray (getProp ?d ''mealData'')"
    using availableVisualizations_iff [of "\<lambda>k. ()" ?d "''mealContents''",
        THEN conjunct2, THEN mp, OF h, THEN conjunct2]
    by simp
  have "''mood''
          \<notin> set (objectKeys (availableVisualizations (allVisualizations (\<lambda>k. ())) (Some ?d)))"
    by (simp add: k)
  then have e: "\<not> nonEmptyArray (getProp ?d (''mood'' @ ''Data''))"
    using availableVisualizations_iff [of "\<lambda>k. ()" ?d "''mood''",
        THEN conjunct2, THEN mp, OF h, THEN conjunct2] r
    by simp
  show ?thesis using h k m e by (intro conjI)
qed


subsection \<open>C5: expand and collapse\<close>

text \<open>
  C5. The expand state holds at most one expanded id (two ids that are both expanded are
  the same id). \<^verbatim>\<open>handleExpand\<close> is a toggle: called with the expanded id it collapses it
  (the state becomes \<^verbatim>\<open>null\<close>); called with any other id it makes that id the single
  expanded item; called twice with the same id, the second call puts that id back into
  the relation it had before the first call, and no item is expanded after the second
  call only if the first call expanded the id.
\<close>

theorem handleExpand_toggle:
  "(isExpanded s i \<and> isExpanded s j \<longrightarrow> i = j)
   \<and> handleExpand i (Some i) = None
   \<and> (s \<noteq> Some i \<longrightarrow>
        handleExpand i s = Some i \<and> (\<forall>j. isExpanded (handleExpand i s) j = (j = i)))
   \<and> isExpanded (handleExpand i s) i = (\<not> isExpanded s i)
   \<and> isExpanded (handleExpand i (handleExpand i s)) i = isExpanded s i
   \<and> (handleExpand i (handleExpand i s) = None \<longrightarrow> handleExpand i s = Some i)"
  by (auto simp: handleExpand_def isExpanded_def)

text \<open>The theorem with chart 1 expanded and chart 0 toggled twice.\<close>

theorem handleExpand_toggle_witness:
  "isExpanded (Some ''patient-chart-0'') ''patient-chart-0''
   \<and> handleExpand ''patient-chart-0'' (Some ''patient-chart-0'') = None
   \<and> Some ''patient-chart-1'' \<noteq> Some ''patient-chart-0''
   \<and> handleExpand ''patient-chart-0'' (Some ''patient-chart-1'') = Some ''patient-chart-0''
   \<and> handleExpand ''patient-chart-0''
        (handleExpand ''patient-chart-0'' (Some ''patient-chart-1'')) = None
   \<and> isExpanded (handleExpand ''patient-chart-0''
        (handleExpand ''patient-chart-0'' (Some ''patient-chart-1''))) ''patient-chart-0''
       = isExpanded (Some ''patient-chart-1'') ''patient-chart-0''"
  using handleExpand_toggle [of "Some ''patient-chart-1''" "''patient-chart-0''" "''patient-chart-0''"]
    handleExpand_toggle [of "Some ''patient-chart-0''" "''patient-chart-0''" "''patient-chart-0''"]
  by (simp add: handleExpand_def isExpanded_def)


subsection \<open>C6: placeholders\<close>

text \<open>
  C6 says that, for every patient id and visualization type, \<^verbatim>\<open>renderVisualization\<close>
  returns the \<open>Invalid visualization\<close> error placeholder when the type is not in the
  registry, and that \<^verbatim>\<open>renderVisualizationWithMode\<close> decides the same way. The code
  diverges from it for the types that name a member of \<^verbatim>\<open>Object.prototype\<close>.

  For patient \<open>Patient_001\<close> and the type \<open>constructor\<close>, which is not a key of the
  registry, the lookup \<^verbatim>\<open>allVisualizations[visualizationType]\<close> finds the inherited
  function \<^verbatim>\<open>Object\<close>; it is truthy, so no placeholder is returned, and its \<^verbatim>\<open>component\<close> is
  \<^verbatim>\<open>undefined\<close>: both functions return an element without a type, which is neither a
  placeholder nor a registered chart.
\<close>

theorem renderVisualization_inherited_member:
  "''constructor'' \<notin> set (objectKeys (allVisualizations (\<lambda>k. ())))
   \<and> truthyId (IdString ''Patient_001'')
   \<and> renderVisualization (IdString ''Patient_001'') (allVisualizations (\<lambda>k. ())) None
        ''constructor'' ''patient-chart-0''
     = UndefinedElement
         \<lparr>patientId_prop = IdString ''Patient_001'', isExpanded_prop = False,
          onExpand_prop = ''patient-chart-0'', viewMode_prop = ''patient'',
          navigation_prop = Missing\<rparr>
   \<and> renderVisualizationWithMode (IdString ''Patient_001'') (allVisualizations (\<lambda>k. ())) None
        ''constructor'' ''physician-chart-0''
     = UndefinedElement
         \<lparr>patientId_prop = IdString ''Patient_001'', isExpanded_prop = False,
          onExpand_prop = ''physician-chart-0'', viewMode_prop = ''physician'',
          navigation_prop = Inherited\<rparr>
   \<and> renderVisualization (IdString ''Patient_001'') (allVisualizations (\<lambda>k. ())) None
        ''constructor'' ''patient-chart-0''
     \<noteq> Placeholder ''Invalid visualization'' ''error''
   \<and> \<not> isPlaceholder (renderVisualization (IdString ''Patient_001'')
          (allVisualizations (\<lambda>k. ())) None ''constructor'' ''patient-chart-0'')
   \<and> \<not> isPlaceholder (renderVisualizationWithMode (IdString ''Patient_001'')
          (allVisualizations (\<lambda>k. ())) None ''constructor'' ''physician-chart-0'')"
  by (simp add: renderVisualization_def renderVisualizationWithMode_def getMember_def
        objectPrototypeKeys_def allVisualizations_def objectKeys_def chartNavigation_def)


subsection \<open>C8: the states of a load\<close>

text \<open>
  C8. Let the hook be in a state it can reach when its events run one after the other,
  and let the effect run for a patient id, with any answer of the data service. When it
  completes: \<open>loading\<close> is false. When the fetch is made (the id is a non-empty string
  and the load is not skipped by the cache test) and fails, \<open>error\<close> is the failure
  message (the message of the \<^verbatim>\<open>Error\<close>, \<open>Unknown error occurred\<close> for another thrown
  value, \<open>Invalid data structure received\<close> for a value without \<^verbatim>\<open>patientInfo\<close>) and
  \<open>data\<close> is \<^verbatim>\<open>null\<close>; when it succeeds, \<open>data\<close> is the fetched object and \<open>error\<close> is
  \<^verbatim>\<open>null\<close>. When the patient id is absent or not a string, \<open>data\<close> and \<open>error\<close> are both
  \<^verbatim>\<open>null\<close> and \<open>loading\<close> is false. In every case \<open>data\<close> and \<open>error\<close> are not both
  non-null. A load started by \<^verbatim>\<open>refetch\<close> also ends with \<open>loading\<close> false and with \<open>data\<close>
  and \<open>error\<close> not both non-null.
\<close>

theorem loadData_states_consistent:
  assumes "reachable s"
  shows
    "\<not> loading (patientIdEffect gp pid s)
     \<and> (truthyId pid \<and> isString pid \<and> \<not> cacheHit pid s \<longrightarrow>
          (\<forall>msg. gp (stringOf pid) = RejectedError msg \<longrightarrow>
             error (patientIdEffect gp pid s) = Some msg \<and> data (patientIdEffect gp pid s) = None)
          \<and> (gp (stringOf pid) = RejectedOther \<longrightarrow>
             error (patientIdEffect gp pid s) = Some ''Unknown error occurred''
             \<and> data (patientIdEffect gp pid s) = None)
          \<and> (\<forall>v. gp (stringOf pid) = Resolved v
                  \<and> \<not> truthy (optionalField v ''patientInfo'') \<longrightarrow>
             error (patientIdEffect gp pid s) = Some ''Invalid data structure received''
             \<and> data (patientIdEffect gp pid s) = None)
          \<and> (\<forall>d. gp (stringOf pid) = Resolved (Some d)
                  \<and> truthy (getProp d ''patientInfo'') \<longrightarrow>
             data (patientIdEffect gp pid s) = Some d \<and> error (patientIdEffect gp pid s) = None))
     \<and> (\<not> truthyId pid \<or> \<not> isString pid \<longrightarrow>
          data (patientIdEffect gp pid s) = None \<and> error (patientIdEffect gp pid s) = None
          \<and> \<not> loading (patientIdEffect gp pid s))
     \<and> \<not> (data (patientIdEffect gp pid s) \<noteq> None \<and> error (patientIdEffect gp pid s) \<noteq> None)
     \<and> (truthyId pid \<longrightarrow>
          \<not> loading (refetch gp pid s)
          \<and> \<not> (data (refetch gp pid s) \<noteq> None \<and> error (refetch gp pid s) \<noteq> None))"
proof -
  note inv = data_loaded_settled [OF assms]
  have 1: "\<not> loading (patientIdEffect gp pid s)"
    using inv by (auto simp: effect_cases cacheHit_def split: sum.splits)
  have 2: "truthyId pid \<and> isString pid \<and> \<not> cacheHit pid s \<longrightarrow>
          (\<forall>msg. gp (stringOf pid) = RejectedError msg \<longrightarrow>
             error (patientIdEffect gp pid s) = Some msg \<and> data (patientIdEffect gp pid s) = None)
          \<and> (gp (stringOf pid) = RejectedOther \<longrightarrow>
             error (patientIdEffect gp pid s) = Some ''Unknown error occurred''
             \<and> data (patientIdEffect gp pid s) = None)
          \<and> (\<forall>v. gp (stringOf pid) = Resolved v
                  \<and> \<not> truthy (optionalField v ''patientInfo'') \<longrightarrow>
             error (patientIdEffect gp pid s) = Some ''Invalid data structure received''
             \<and> data (patientIdEffect gp pid s) = None)
          \<and> (\<forall>d. gp (stringOf pid) = Resolved (Some d)
                  \<and> truthy (getProp d ''patientInfo'') \<longrightarrow>
             data (patientIdEffect gp pid s) = Some d \<and> error (patientIdEffect gp pid s) = None)"
    by (auto simp: effect_cases optionalField_def split: option.splits)
  have 3: "\<not> truthyId pid \<or> \<not> isString pid \<longrightarrow>
          data (patientIdEffect gp pid s) = None \<and> error (patientIdEffect gp pid s) = None
          \<and> \<not> loading (patientIdEffect gp pid s)"
    by (cases pid) (auto simp: effect_cases cacheHit_def)
  have 4: "\<not> (data (patientIdEffect gp pid s) \<noteq> None \<and> error (patientIdEffect gp pid s) \<noteq> None)"
    using inv by (auto simp: effect_cases cacheHit_def split: sum.splits)
  have 5: "truthyId pid \<longrightarrow>
          \<not> loading (refetch gp pid s)
          \<and> \<not> (data (refetch gp pid s) \<noteq> None \<and> error (refetch gp pid s) \<noteq> None)"
    using inv by (auto simp: refetch_cases cacheHit_def split: sum.splits)
  show ?thesis using 1 2 3 4 5 by blast
qed

text \<open>
  The theorem from the initial state: a successful load of \<open>Patient_001\<close>, a fetch that
  throws, and an absent patient id.
\<close>

theorem loadData_states_consistent_witness:
  "reachable (initialState :: unit hook_state)
   \<and> truthyId (IdString ''Patient_001'') \<and> isString (IdString ''Patient_001'')
   \<and> \<not> cacheHit (IdString ''Patient_001'') (initialState :: unit hook_state)
   \<and> patientIdEffect (\<lambda>i. Resolved (Some [(''patientInfo'', JObject)]))
        (IdString ''Patient_001'') (initialState :: unit hook_state)
       = \<lparr>data = Some [(''patientInfo'', JObject)], loading = False, error = None,
          lastFetchedId = Some ''Patient_001''\<rparr>
   \<and> patientIdEffect (\<lambda>i. RejectedError ''Failed to fetch'')
        (IdString ''Patient_001'') (initialState :: unit hook_state)
       = \<lparr>data = None, loading = False, error = Some ''Failed to fetch'',
          lastFetchedId = None\<rparr>
   \<and> \<not> truthyId IdNull
   \<and> patientIdEffect (\<lambda>i. RejectedOther) IdNull (initialState :: unit hook_state)
       = \<lparr>data = None, loading = False, error = None, lastFetchedId = None\<rparr>
   \<and> \<not> loading (patientIdEffect (\<lambda>i. Resolved (Some [(''patientInfo'', JObject)]))
        (IdString ''Patient_001'') (initialState :: unit hook_state))"
proof -
  have r: "reachable (initialState :: unit hook_state)" by (rule reach_init)
  have c: "\<not> cacheHit (IdString ''Patient_001'') (initialState :: unit hook_state)"
    by (simp add: cacheHit_def initialState_def)
  have v: "patientIdEffect (\<lambda>i. Resolved (Some [(''patientInfo'', JObject)]))
        (IdString ''Patient_001'') (initialState :: unit hook_state)
       = \<lparr>data = Some [(''patientInfo'', JObject)], loading = False, error = None,
          lastFetchedId = Some ''Patient_001''\<rparr>"
    "patientIdEffect (\<lambda>i. RejectedError ''Failed to fetch'')
        (IdString ''Patient_001'') (initialState :: unit hook_state)
       = \<lparr>data = None, loading = False, error = Some ''Failed to fetch'',
          lastFetchedId = None\<rparr>"
    "patientIdEffect (\<lambda>i. RejectedOther) IdNull (initialState :: unit hook_state)
       = \<lparr>data = None, loading = False, error = None, lastFetchedId = None\<rparr>"
    by (simp_all add: patientIdEffect_def loadData_def applyUpdates_def cacheHit_def
          initialState_def getProp_def)
  have l: "\<not> loading (patientIdEffect (\<lambda>i. Resolved (Some [(''patientInfo'', JObject)]))
        (IdString ''Patient_001'') (initialState :: unit hook_state))"
    using loadData_states_consistent [OF r] by blast
  show ?thesis using r c v l by simp
qed


subsection \<open>C9: accessors and flags\<close>

text \<open>
  C9. For every state of the hook, each per-metric accessor (\<open>glucoseData\<close>,
  \<open>bloodPressureData\<close>, \<open>exerciseData\<close>, \<open>moodData\<close>, \<open>painData\<close>, \<open>mealData\<close>,
  \<open>sleepData\<close>) is the empty array whenever the data object is \<^verbatim>\<open>null\<close> or lacks the
  field, and is never \<^verbatim>\<open>null\<close> or \<^verbatim>\<open>undefined\<close>; \<open>hasData\<close> is true if and only if the data
  object is non-null; and each flag \<open>hasXData\<close> is true if and only if the corresponding
  accessor's value is a non-empty array.
\<close>

theorem accessors_and_flags:
  "(data s = None \<or> optionalField (data s) ''glucoseData'' = None \<longrightarrow> glucoseData s = Some (JArray []))
   \<and> glucoseData s \<noteq> None \<and> glucoseData s \<noteq> Some JNull
   \<and> hasGlucoseData s = nonEmptyArray (glucoseData s)
   \<and> (data s = None \<or> optionalField (data s) ''bloodPressureData'' = None \<longrightarrow> bloodPressureData s = Some (JArray []))
   \<and> bloodPressureData s \<noteq> None \<and> bloodPressureData s \<noteq> Some JNull
   \<and> hasBloodPressureData s = nonEmptyArray (bloodPressureData s)
   \<and> (data s = None \<or> optionalField (data s) ''exerciseData'' = None \<longrightarrow> exerciseData s = Some (JArray []))
   \<and> exerciseData s \<noteq> None \<and> exerciseData s \<noteq> Some JNull
   \<and> hasExerciseData s = nonEmptyArray (exerciseData s)
   \<and> (data s = None \<or> optionalField (data s) ''moodData'' = None \<longrightarrow> moodData s = Some (JArray []))
   \<and> moodData s \<noteq> None \<and> moodData s \<noteq> Some JNull
   \<and> hasMoodData s = nonEmptyArray (moodData s)
   \<and> (data s = None \<or> optionalField (data s) ''painData'' = None \<longrightarrow> painData s = Some (JArray []))
   \<and> painData s \<noteq> None \<and> painData s \<noteq> Some JNull
   \<and> hasPainData s = nonEmptyArray (painData s)
   \<and> (data s = None \<or> optionalField (data s) ''mealData'' = None \<longrightarrow> mealData s = Some (JArray []))
   \<and> mealData s \<noteq> None \<and> mealData s \<noteq> Some JNull
   \<and> hasMealData s = nonEmptyArray (mealData s)
   \<and> (data s = None \<or> optionalField (data s) ''sleepData'' = None \<longrightarrow> sleepData s = Some (JArray []))
   \<and> sleepData s \<noteq> None \<and> sleepData s \<noteq> Some JNull
   \<and> hasSleepData s = nonEmptyArray (sleepData s)
   \<and> hasData s = (data s \<noteq> None)"
  unfolding glucoseData_def hasGlucoseData_def bloodPressureData_def hasBloodPressureData_def exerciseData_def hasExerciseData_def
    moodData_def hasMoodData_def painData_def hasPainData_def mealData_def hasMealData_def
    sleepData_def hasSleepData_def hasData_def
  by (intro conjI refl accessor_props [THEN conjunct1]
        accessor_props [THEN conjunct2, THEN conjunct1]
        accessor_props [THEN conjunct2, THEN conjunct2, THEN conjunct1]
        accessor_props [THEN conjunct2, THEN conjunct2, THEN conjunct2])

text \<open>
  The theorem at a state without data and at a state whose data object has one glucose
  reading and no sleep field.
\<close>

theorem accessors_and_flags_witness:
  "data (initialState :: unit hook_state) = None
   \<and> glucoseData (initialState :: unit hook_state) = Some (JArray [])
   \<and> \<not> hasGlucoseData (initialState :: unit hook_state)
   \<and> \<not> hasData (initialState :: unit hook_state)
   \<and> optionalField (Some [(''patientInfo'', JObject), (''glucoseData'', JArray [()])])
        ''sleepData'' = None
   \<and> sleepData \<lparr>data = Some [(''patientInfo'', JObject), (''glucoseData'', JArray [()])],
                loading = False, error = None, lastFetchedId = Some ''Patient_001''\<rparr>
       = Some (JArray [])
   \<and> hasGlucoseData \<lparr>data = Some [(''patientInfo'', JObject), (''glucoseData'', JArray [()])],
                loading = False, error = None, lastFetchedId = Some ''Patient_001''\<rparr>"
proof -
  let ?s = "\<lparr>data = Some [(''patientInfo'', JObject), (''glucoseData'', JArray [()])],
             loading = False, error = None, lastFetchedId = Some ''Patient_001''\<rparr>"
  have a: "data (initialState :: unit hook_state) = None" by (simp add: initialState_def)
  have b: "optionalField (Some [(''patientInfo'', JObject), (''glucoseData'', JArray [()])])
        ''sleepData'' = None"
    by (simp add: optionalField_def getProp_def)
  have c: "nonEmptyArray (glucoseData ?s)"
    by (simp add: glucoseData_def optionalField_def getProp_def orEmptyArray_def
          nonEmptyArray_def)
  have d: "\<not> nonEmptyArray (Some (JArray []))" by (simp add: nonEmptyArray_def)
  show ?thesis
    using accessors_and_flags [of "initialState :: unit hook_state"]
      accessors_and_flags [of ?s] a b c d
    by simp
qed


subsection \<open>C10: chart ids\<close>

text \<open>
  C10. For every patient data object and view mode, \<^verbatim>\<open>selectedVisualizations\<close> pairs the
  chart ids \<open><viewMode>-chart-0\<close> to \<open><viewMode>-chart-(n-1)\<close>, in this order, with the
  \<open>n\<close> available metric keys in registry order: it has exactly \<open>n\<close> entries, its keys are
  these chart ids and are distinct, the available keys are distinct, and the id with
  index \<open>i\<close> maps to the \<open>i\<close>-th available key.
\<close>

theorem selectedVisualizations_bijection:
  "selectedVisualizations viewMode (availableVisualizations (allVisualizations cfg) patientData)
     = zip (map (chartId viewMode)
              [0..<length (availableVisualizations (allVisualizations cfg) patientData)])
           (map Some (objectKeys (availableVisualizations (allVisualizations cfg) patientData)))
   \<and> length (selectedVisualizations viewMode
               (availableVisualizations (allVisualizations cfg) patientData))
       = length (objectKeys (availableVisualizations (allVisualizations cfg) patientData))
   \<and> objectKeys (selectedVisualizations viewMode
               (availableVisualizations (allVisualizations cfg) patientData))
       = map (chartId viewMode)
           [0..<length (objectKeys (availableVisualizations (allVisualizations cfg) patientData))]
   \<and> distinct (objectKeys (selectedVisualizations viewMode
               (availableVisualizations (allVisualizations cfg) patientData)))
   \<and> distinct (objectKeys (availableVisualizations (allVisualizations cfg) patientData))
   \<and> objectKeys (availableVisualizations (allVisualizations cfg) patientData)
       = filter (\<lambda>key. key \<in> set (objectKeys
                    (availableVisualizations (allVisualizations cfg) patientData)))
           (objectKeys (allVisualizations cfg))
   \<and> (\<forall>i < length (objectKeys (availableVisualizations (allVisualizations cfg) patientData)).
        getProp (selectedVisualizations viewMode
                  (availableVisualizations (allVisualizations cfg) patientData))
          (chartId viewMode i)
        = Some (Some (objectKeys
                  (availableVisualizations (allVisualizations cfg) patientData) ! i)))"
proof -
  define available where
    "available = availableVisualizations (allVisualizations cfg) patientData"
  have sub: "objectKeys available
               = filter (\<lambda>key. key \<in> set (objectKeys available)) (objectKeys (allVisualizations cfg))"
    unfolding available_def by (rule available_keys_sublist)
  have "distinct (filter (\<lambda>key. key \<in> set (objectKeys available))
                    (objectKeys (allVisualizations cfg)))"
    using distinct_registry [of cfg] by (simp add: objectKeys_def)
  then have d2: "distinct (objectKeys available)" using sub by simp
  show ?thesis
    using selected_props [of viewMode available] d2 sub
    unfolding available_def by (intro conjI) (elim conjE, assumption)+
qed

text \<open>
  The theorem for the physician view and the data object of the C4 witness: chart 0 is
  the pain chart, chart 1 the meal contents chart.
\<close>

theorem selectedVisualizations_bijection_witness:
  "selectedVisualizations ''physician''
      (availableVisualizations (allVisualizations (\<lambda>k. ()))
        (Some [(''mealData'', JArray [()]), (''moodData'', JArray []),
               (''painData'', JArray [(), ()]), (''sleepData'', JNull),
               (''patientInfo'', JObject)]))
     = [(''physician-chart-0'', Some ''pain''), (''physician-chart-1'', Some ''mealContents'')]
   \<and> (1::nat) < length (objectKeys (availableVisualizations (allVisualizations (\<lambda>k. ()))
        (Some [(''mealData'', JArray [()]), (''moodData'', JArray []),
               (''painData'', JArray [(), ()]), (''sleepData'', JNull),
               (''patientInfo'', JObject)])))
   \<and> getProp (selectedVisualizations ''physician''
      (availableVisualizations (allVisualizations (\<lambda>k. ()))
        (Some [(''mealData'', JArray [()]), (''moodData'', JArray []),
               (''painData'', JArray [(), ()]), (''sleepData'', JNull),
               (''patientInfo'', JObject)]))) (chartId ''physician'' 1)
     = Some (Some ''mealContents'')"
proof -
  let ?d = "Some [(''mealData'', JArray [()]), (''moodData'', JArray []),
               (''painData'', JArray [(), ()]), (''sleepData'', JNull),
               (''patientInfo'', JObject)]"
  have k: "objectKeys (availableVisualizations (allVisualizations (\<lambda>k. ())) ?d)
             = [''pain'', ''mealContents'']"
    by code_simp
  have v: "selectedVisualizations ''physician''
             (availableVisualizations (allVisualizations (\<lambda>k. ())) ?d)
     = [(''physician-chart-0'', Some ''pain''), (''physician-chart-1'', Some ''mealContents'')]"
    by code_simp
  have l: "(1::nat) < length (objectKeys
             (availableVisualizations (allVisualizations (\<lambda>k. ())) ?d))"
    by (simp add: k)
  note look = selectedVisualizations_bijection [of "''physician''" "\<lambda>k. ()" ?d,
      THEN conjunct2, THEN conjunct2, THEN conjunct2, THEN conjunct2, THEN conjunct2,
      THEN conjunct2, THEN spec, THEN mp, OF l]
  have g: "getProp (selectedVisualizations ''physician''
             (availableVisualizations (allVisualizations (\<lambda>k. ())) ?d)) (chartId ''physician'' 1)
     = Some (Some ''mealContents'')"
    using look by (simp add: k)
  show ?thesis using v l g by (intro conjI)
qed

end
